theory Spec2Isabelle
  imports Complex_Main "HOL-Library.Sublist" "HOL-Library.AList"
begin

section \<open>Python values and built-ins used by \<^verbatim>\<open>verification_service.py\<close>\<close>

text \<open>
  The service is a Python class whose methods call a hosted model, parse JSON out of
  the reply and fall back to defaults. The embedding follows the file function by
  function.

  \<^item> A Python \<^verbatim>\<open>str\<close> is a \<^typ>\<open>string\<close>: a \<^typ>\<open>char\<close> is a code point below 256
    (\<^verbatim>\<open>CHR 0xC9\<close> is U+00C9), and on these code points \<^verbatim>\<open>str.isspace\<close>, \<^verbatim>\<open>str.split\<close>,
    \<^verbatim>\<open>str.strip\<close> and \<^verbatim>\<open>str.lower\<close> are modelled as the interpreter computes them. Text
    with a code point from 256 on has no counterpart in the model.
  \<^item> A Python \<^verbatim>\<open>float\<close> is a \<^typ>\<open>real\<close>: rounding, infinities and NaN are
    not modelled. Every number the claims compare (\<^verbatim>\<open>0.5\<close>, \<^verbatim>\<open>0.375\<close>,
    \<^verbatim>\<open>30\<close>, \<^verbatim>\<open>60\<close>, \<^verbatim>\<open>100\<close>) is exact in binary floating point.
  \<^item> A value produced by \<^verbatim>\<open>json.loads\<close> is a \<open>json\<close>; a \<^verbatim>\<open>dict\<close> is an
    association list in insertion order.
  \<^item> An exception is a value \<open>Exn kind text\<close>, where \<open>text\<close> is what
    \<^verbatim>\<open>str(e)\<close> gives; a function that can raise returns \<open>exn + 'a\<close>.
\<close>

datatype exn_kind =
  JSONDecodeError | TypeError | AttributeError | ValueError | OverflowError | OtherError

datatype exn = Exn (kind: exn_kind) (msg: string)

datatype json =
  JNull
| JBool bool
| JInt int
| JFloat real
| JStr string
| JList "json list"
| JDict "(string \<times> json) list"

text \<open>The outcome of a call to an external service: it raises, or it returns a value.\<close>

datatype 'a outcome = Raises exn | Returns 'a

subsection \<open>Strings\<close>

text \<open>
  The code points below 256 on which \<^verbatim>\<open>str.isspace\<close> holds: the ASCII whitespace, the
  four separators U+001C to U+001F, NEXT LINE U+0085 and NO-BREAK SPACE U+00A0.
  \<^verbatim>\<open>str.split()\<close> and \<^verbatim>\<open>str.strip()\<close> use the same set.
\<close>

definition is_space :: "char \<Rightarrow> bool" where
  "is_space c \<longleftrightarrow>
     c \<in> set [CHR 0x09, CHR 0x0A, CHR 0x0B, CHR 0x0C, CHR 0x0D,
              CHR 0x1C, CHR 0x1D, CHR 0x1E, CHR 0x1F, CHR 0x20,
              CHR 0x85, CHR 0xA0]"

text \<open>
  The code points below 256 that \<^verbatim>\<open>str.lower\<close> changes, and what it maps them to: the
  letters \<^verbatim>\<open>A-Z\<close> and the capitals U+00C0 to U+00DE other than the multiplication sign
  U+00D7, each to the code point 32 above it.
\<close>

definition cased_upper :: string where
  "cased_upper =
     ''ABCDEFGHIJKLMNOPQRSTUVWXYZ'' @
     [CHR 0xC0, CHR 0xC1, CHR 0xC2, CHR 0xC3, CHR 0xC4, CHR 0xC5, CHR 0xC6, CHR 0xC7,
      CHR 0xC8, CHR 0xC9, CHR 0xCA, CHR 0xCB, CHR 0xCC, CHR 0xCD, CHR 0xCE, CHR 0xCF,
      CHR 0xD0, CHR 0xD1, CHR 0xD2, CHR 0xD3, CHR 0xD4, CHR 0xD5, CHR 0xD6,
      CHR 0xD8, CHR 0xD9, CHR 0xDA, CHR 0xDB, CHR 0xDC, CHR 0xDD, CHR 0xDE]"

definition cased_lower :: string where
  "cased_lower =
     ''abcdefghijklmnopqrstuvwxyz'' @
     [CHR 0xE0, CHR 0xE1, CHR 0xE2, CHR 0xE3, CHR 0xE4, CHR 0xE5, CHR 0xE6, CHR 0xE7,
      CHR 0xE8, CHR 0xE9, CHR 0xEA, CHR 0xEB, CHR 0xEC, CHR 0xED, CHR 0xEE, CHR 0xEF,
      CHR 0xF0, CHR 0xF1, CHR 0xF2, CHR 0xF3, CHR 0xF4, CHR 0xF5, CHR 0xF6,
      CHR 0xF8, CHR 0xF9, CHR 0xFA, CHR 0xFB, CHR 0xFC, CHR 0xFD, CHR 0xFE]"

definition lower_char :: "char \<Rightarrow> char" where
  "lower_char c =
     (case map_of (zip cased_upper cased_lower) c of
        None \<Rightarrow> c
      | Some l \<Rightarrow> l)"

definition py_lower :: "string \<Rightarrow> string" where
  "py_lower s = map lower_char s"

text \<open>
  \<^verbatim>\<open>s.split()\<close> with no argument: the maximal runs of non-whitespace characters, in
  order. \<open>cur\<close> is the token being read.
\<close>

fun split_acc :: "string \<Rightarrow> string \<Rightarrow> string list" where
  "split_acc cur [] = (if cur = [] then [] else [cur])"
| "split_acc cur (c # cs) =
     (if is_space c
      then (if cur = [] then split_acc [] cs else cur # split_acc [] cs)
      else split_acc (cur @ [c]) cs)"

definition py_split :: "string \<Rightarrow> string list" where
  "py_split s = split_acc [] s"

definition py_strip :: "string \<Rightarrow> string" where
  "py_strip s = rev (dropWhile is_space (rev (dropWhile is_space s)))"

text \<open>
  The three parsing blocks of the file share these lines:
  \<^verbatim>\<open>
  json_text = response.strip()
  if json_text.startswith('```'):
      json_text = re.sub(r'^```(?:json)?\n', '', json_text)
      json_text = re.sub(r'\n```$', '', json_text)
  \<close>
  Without \<^verbatim>\<open>re.MULTILINE\<close>, \<^verbatim>\<open>^\<close> matches at the start only, and \<^verbatim>\<open>$\<close> at the
  end or before a newline that ends the text.
\<close>

definition remove_fence_open :: "string \<Rightarrow> string" where
  "remove_fence_open t =
     (if prefix (''```json'' @ [CHR 0x0A]) t then drop 8 t
      else if prefix (''```'' @ [CHR 0x0A]) t then drop 4 t
      else t)"

definition remove_fence_close :: "string \<Rightarrow> string" where
  "remove_fence_close t =
     (if suffix (CHR 0x0A # ''```'') t then take (length t - 4) t
      else if suffix (CHR 0x0A # ''```'' @ [CHR 0x0A]) t then take (length t - 5) t @ [CHR 0x0A]
      else t)"

definition extract_json_text :: "string \<Rightarrow> string" where
  "extract_json_text response =
     (let json_text = py_strip response
      in if prefix ''```'' json_text
         then remove_fence_close (remove_fence_open json_text)
         else json_text)"

subsection \<open>The lexical-overlap fallback of \<^verbatim>\<open>calculate_semantic_similarity\<close>\<close>

text \<open>
  \<^verbatim>\<open>
  common_words = set(text1.lower().split()) & set(text2.lower().split())
  return len(common_words) / max(len(text1.split()), len(text2.split()), 1) * 0.5
  \<close>
\<close>

definition common_words :: "string \<Rightarrow> string \<Rightarrow> string set" where
  "common_words text1 text2 =
     set (py_split (py_lower text1)) \<inter> set (py_split (py_lower text2))"

definition fallback_similarity :: "string \<Rightarrow> string \<Rightarrow> real" where
  "fallback_similarity text1 text2 =
     real (card (common_words text1 text2))
       / real (max (max (length (py_split text1)) (length (py_split text2))) 1) * 0.5"

text \<open>
  The same score in the words of the specification, to compare the code with: the
  whitespace-delimited tokens of a text are read off with \<open>takeWhile\<close> and \<open>dropWhile\<close>;
  the score is the number of distinct tokens of the lower-cased first text that are
  also tokens of the lower-cased second text, divided by the larger of the two token
  counts and 1, times 0.5.
\<close>

function spec_tokens :: "string \<Rightarrow> string list" where
  "spec_tokens s =
     (let rest = dropWhile is_space s
      in if rest = [] then []
         else takeWhile (\<lambda>c. \<not> is_space c) rest
                # spec_tokens (dropWhile (\<lambda>c. \<not> is_space c) rest))"
  by pat_completeness auto
termination
proof (relation "measure length")
  show "wf (measure length)" by simp
next
  fix s rest :: string
  assume rest: "rest = dropWhile is_space s" and ne: "rest \<noteq> []"
  from ne obtain c cs where cs: "rest = c # cs" by (cases rest) auto
  have "dropWhile is_space s = c # cs" using rest cs by simp
  then have "\<not> is_space c" by (simp add: dropWhile_eq_Cons_conv)
  then have "dropWhile (\<lambda>c. \<not> is_space c) rest = dropWhile (\<lambda>c. \<not> is_space c) cs"
    by (simp add: cs)
  then have "length (dropWhile (\<lambda>c. \<not> is_space c) rest) \<le> length cs"
    by (simp add: length_dropWhile_le)
  also have "length cs < length rest" by (simp add: cs)
  also have "length rest \<le> length s" by (simp add: rest length_dropWhile_le)
  finally show "(dropWhile (\<lambda>c. \<not> is_space c) rest, s) \<in> measure length" by simp
qed

declare spec_tokens.simps [simp del]

definition spec_shared_tokens :: "string \<Rightarrow> string \<Rightarrow> string list" where
  "spec_shared_tokens text1 text2 =
     remdups (filter (\<lambda>w. w \<in> set (spec_tokens (py_lower text2)))
                     (spec_tokens (py_lower text1)))"

definition spec_overlap_score :: "string \<Rightarrow> string \<Rightarrow> real" where
  "spec_overlap_score text1 text2 =
     real (length (spec_shared_tokens text1 text2))
       / real (max (max (length (spec_tokens text1)) (length (spec_tokens text2))) 1) * 0.5"

subsection \<open>JSON values and the built-ins applied to them\<close>

fun type_name :: "json \<Rightarrow> string" where
  "type_name JNull = ''NoneType''"
| "type_name (JBool b) = ''bool''"
| "type_name (JInt n) = ''int''"
| "type_name (JFloat r) = ''float''"
| "type_name (JStr s) = ''str''"
| "type_name (JList xs) = ''list''"
| "type_name (JDict kv) = ''dict''"

definition quote :: "string \<Rightarrow> string" where
  "quote s = CHR 0x27 # s @ [CHR 0x27]"

definition no_attribute :: "json \<Rightarrow> string \<Rightarrow> exn" where
  "no_attribute v a =
     Exn AttributeError (quote (type_name v) @ '' object has no attribute '' @ quote a)"

definition dict_get :: "(string \<times> json) list \<Rightarrow> string \<Rightarrow> json \<Rightarrow> json" where
  "dict_get kv k d = (case map_of kv k of None \<Rightarrow> d | Some v \<Rightarrow> v)"

text \<open>\<^verbatim>\<open>v.get(k, d)\<close>: only a \<^verbatim>\<open>dict\<close> has the method.\<close>

fun py_get :: "json \<Rightarrow> string \<Rightarrow> json \<Rightarrow> exn + json" where
  "py_get (JDict kv) k d = Inr (dict_get kv k d)"
| "py_get v k d = Inl (no_attribute v ''get'')"

text \<open>\<^verbatim>\<open>len(v)\<close>.\<close>

fun py_len :: "json \<Rightarrow> exn + nat" where
  "py_len (JStr s) = Inr (length s)"
| "py_len (JList xs) = Inr (length xs)"
| "py_len (JDict kv) = Inr (length kv)"
| "py_len v = Inl (Exn TypeError (''object of type '' @ quote (type_name v) @ '' has no len()''))"

text \<open>
  \<^verbatim>\<open>v[:n]\<close>: a prefix of a list or of a string; nothing else can be sliced. (On a
  dict the interpreter raises \<^verbatim>\<open>TypeError\<close> up to Python 3.11 and \<^verbatim>\<open>KeyError\<close> from 3.12
  on; every handler of the file treats the two alike.)
\<close>

fun py_slice :: "nat \<Rightarrow> json \<Rightarrow> exn + json" where
  "py_slice n (JStr s) = Inr (JStr (take n s))"
| "py_slice n (JList xs) = Inr (JList (take n xs))"
| "py_slice n (JDict kv) = Inl (Exn TypeError (''unhashable type: '' @ quote ''slice''))"
| "py_slice n v = Inl (Exn TypeError (quote (type_name v) @ '' object is not subscriptable''))"

text \<open>
  \<^verbatim>\<open>for x in v\<close> and \<^verbatim>\<open>list.extend(v)\<close>: the elements of a list, the characters of a
  string, the keys of a dict.
\<close>

fun py_iter :: "json \<Rightarrow> exn + json list" where
  "py_iter (JList xs) = Inr xs"
| "py_iter (JStr s) = Inr (map (\<lambda>c. JStr [c]) s)"
| "py_iter (JDict kv) = Inr (map (\<lambda>p. JStr (fst p)) kv)"
| "py_iter v = Inl (Exn TypeError (quote (type_name v) @ '' object is not iterable''))"

text \<open>
  \<^verbatim>\<open>float(v)\<close>. Reading a string as a number is the interpreter's work and is the
  parameter \<open>float_of_str\<close>; an integer too large for a double raises.
\<close>

fun py_float :: "(string \<Rightarrow> real option) \<Rightarrow> json \<Rightarrow> exn + real" where
  "py_float float_of_str (JFloat r) = Inr r"
| "py_float float_of_str (JInt n) =
     (if \<bar>n\<bar> < 2 ^ 1024 - 2 ^ 970 then Inr (of_int n)
      else Inl (Exn OverflowError ''int too large to convert to float''))"
| "py_float float_of_str (JBool b) = Inr (if b then 1 else 0)"
| "py_float float_of_str (JStr s) =
     (case float_of_str s of
        Some r \<Rightarrow> Inr r
      | None \<Rightarrow> Inl (Exn ValueError (''could not convert string to float: '' @ quote s)))"
| "py_float float_of_str v =
     Inl (Exn TypeError (''float() argument must be a string or a real number, not ''
                          @ quote (type_name v)))"

text \<open>\<^verbatim>\<open>v > t\<close> for a float \<open>t\<close>: numbers compare, anything else raises.\<close>

fun py_gt :: "json \<Rightarrow> real \<Rightarrow> exn + bool" where
  "py_gt (JFloat r) t = Inr (r > t)"
| "py_gt (JInt n) t = Inr (of_int n > t)"
| "py_gt (JBool b) t = Inr ((if b then 1 else 0) > t)"
| "py_gt v t =
     Inl (Exn TypeError (quote ''>'' @ '' not supported between instances of ''
                          @ quote (type_name v) @ '' and '' @ quote ''float''))"

fun map_exn :: "('a \<Rightarrow> exn + 'b) \<Rightarrow> 'a list \<Rightarrow> exn + 'b list" where
  "map_exn f [] = Inr []"
| "map_exn f (x # xs) =
     (case f x of
        Inl e \<Rightarrow> Inl e
      | Inr y \<Rightarrow> (case map_exn f xs of Inl e \<Rightarrow> Inl e | Inr ys \<Rightarrow> Inr (y # ys)))"

fun filter_exn :: "('a \<Rightarrow> exn + bool) \<Rightarrow> 'a list \<Rightarrow> exn + 'a list" where
  "filter_exn p [] = Inr []"
| "filter_exn p (x # xs) =
     (case p x of
        Inl e \<Rightarrow> Inl e
      | Inr b \<Rightarrow> (case filter_exn p xs of
                    Inl e \<Rightarrow> Inl e
                  | Inr ys \<Rightarrow> Inr (if b then x # ys else ys)))"

section \<open>The external capabilities\<close>

text \<open>
  What the hosted services and the interpreter's parsers answer is not decided by the
  repository; it is a parameter of every function below.

  \<^item> \<open>query_reply claim\<close>: lines 53-69, building the chat and awaiting
    \<^verbatim>\<open>send_message\<close> in \<^verbatim>\<open>generate_search_queries\<close>: an exception, \<^verbatim>\<open>None\<close>, or text.
  \<^item> \<open>evidence_reply i query\<close>: lines 103-132 of \<^verbatim>\<open>search_trusted_sources\<close>, for the
    \<open>i\<close>-th query of one verification (the service may answer the same query differently).
  \<^item> \<open>embedding_similarity i text1 text2\<close>: lines 173-198, the two embedding requests
    and the cosine similarity, for the \<open>i\<close>-th evidence item.
  \<^item> \<open>verdict_reply claim supporting contradicting\<close>: lines 273-309 of
    \<^verbatim>\<open>_determine_verdict\<close>.
  \<^item> \<open>json_loads\<close>: \<^verbatim>\<open>json.loads\<close>; \<open>Inl\<close> of kind \<open>JSONDecodeError\<close> is a parse failure.
  \<^item> \<open>float_of_str\<close>: \<^verbatim>\<open>float\<close> on a string, \<open>None\<close> where it raises \<^verbatim>\<open>ValueError\<close>.
\<close>

record env =
  query_reply :: "string \<Rightarrow> string option outcome"
  evidence_reply :: "nat \<Rightarrow> json \<Rightarrow> string option outcome"
  embedding_similarity :: "nat \<Rightarrow> string \<Rightarrow> json \<Rightarrow> real outcome"
  verdict_reply :: "string \<Rightarrow> json list \<Rightarrow> json list \<Rightarrow> string option outcome"
  json_loads :: "string \<Rightarrow> exn + json"
  float_of_str :: "string \<Rightarrow> real option"

section \<open>\<^verbatim>\<open>VerificationService\<close>\<close>

subsection \<open>\<^verbatim>\<open>generate_search_queries\<close>\<close>

text \<open>
  The body of the \<^verbatim>\<open>try\<close>. \<^verbatim>\<open>if response:\<close> is false for \<^verbatim>\<open>None\<close> and for the empty
  string. The inner handler catches \<^verbatim>\<open>json.JSONDecodeError\<close> only; \<^verbatim>\<open>len(queries)\<close> in
  the log line and the slice \<^verbatim>\<open>queries[:3]\<close> raise on a value that has no length or
  cannot be sliced.
\<close>

definition generate_search_queries_body :: "env \<Rightarrow> string \<Rightarrow> exn + json" where
  "generate_search_queries_body env claim =
     (case query_reply env claim of
        Raises e \<Rightarrow> Inl e
      | Returns None \<Rightarrow> Inr (JList [JStr claim])
      | Returns (Some response) \<Rightarrow>
          if response = [] then Inr (JList [JStr claim])
          else (case json_loads env (extract_json_text response) of
                  Inl e \<Rightarrow> if kind e = JSONDecodeError then Inr (JList [JStr claim]) else Inl e
                | Inr queries \<Rightarrow>
                    (case py_len queries of
                       Inl e \<Rightarrow> Inl e
                     | Inr n \<Rightarrow> py_slice 3 queries)))"

text \<open>The outer \<^verbatim>\<open>except Exception\<close> returns \<^verbatim>\<open>[claim]\<close>.\<close>

definition generate_search_queries :: "env \<Rightarrow> string \<Rightarrow> json" where
  "generate_search_queries env claim =
     (case generate_search_queries_body env claim of
        Inl e \<Rightarrow> JList [JStr claim]
      | Inr queries \<Rightarrow> queries)"

subsection \<open>\<^verbatim>\<open>search_trusted_sources\<close>\<close>

text \<open>\<^verbatim>\<open>self.trusted_sources\<close>: name, url, credibility, search pattern, in the dict's order.\<close>

definition trusted_sources :: "(string \<times> string \<times> int \<times> string) list" where
  "trusted_sources =
     [(''PIB Fact Check'', ''https://factcheck.pib.gov.in'', 95, ''site:factcheck.pib.gov.in''),
      (''Alt News'', ''https://www.altnews.in'', 90, ''site:altnews.in''),
      (''BoomLive'', ''https://www.boomlive.in/fact-check'', 90, ''site:boomlive.in''),
      (''The Hindu'', ''https://www.thehindu.com'', 85, ''site:thehindu.com''),
      (''PTI'', ''https://www.ptinews.com'', 88, ''site:ptinews.com'')]"

text \<open>The inner loop with its \<^verbatim>\<open>break\<close>: the first trusted name contained in the source name.\<close>

fun matching_credibility :: "(string \<times> string \<times> int \<times> string) list \<Rightarrow> string \<Rightarrow> int option" where
  "matching_credibility [] source_name = None"
| "matching_credibility ((trusted_name, url, credibility, pat) # rest) source_name =
     (if sublist (py_lower trusted_name) (py_lower source_name) then Some credibility
      else matching_credibility rest source_name)"

text \<open>One turn of \<^verbatim>\<open>for result in results\<close>.\<close>

fun add_credibility :: "json \<Rightarrow> exn + json" where
  "add_credibility (JDict kv) =
     (case dict_get kv ''source_name'' (JStr []) of
        JStr source_name \<Rightarrow>
          (let kv1 = (case matching_credibility trusted_sources source_name of
                        Some c \<Rightarrow> AList.update ''credibility_score'' (JInt c) kv
                      | None \<Rightarrow> kv)
           in Inr (JDict (if ''credibility_score'' \<in> fst ` set kv1 then kv1
                          else AList.update ''credibility_score'' (JInt 70) kv1)))
      | v \<Rightarrow> Inl (no_attribute v ''lower''))"
| "add_credibility v = Inl (no_attribute v ''get'')"

text \<open>
  Lines 144-155 on the parsed value: the loop mutates the elements of a list in place;
  any other value that gets through the loop had nothing to iterate and is returned as
  it is.
\<close>

definition annotate_results :: "json \<Rightarrow> exn + json" where
  "annotate_results results =
     (case py_iter results of
        Inl e \<Rightarrow> Inl e
      | Inr items \<Rightarrow>
          (case map_exn add_credibility items of
             Inl e \<Rightarrow> Inl e
           | Inr items' \<Rightarrow>
               (case py_len results of
                  Inl e \<Rightarrow> Inl e
                | Inr n \<Rightarrow> Inr (case results of JList xs \<Rightarrow> JList items' | v \<Rightarrow> v))))"

definition search_trusted_sources_body :: "env \<Rightarrow> nat \<Rightarrow> json \<Rightarrow> exn + json" where
  "search_trusted_sources_body env i query =
     (case evidence_reply env i query of
        Raises e \<Rightarrow> Inl e
      | Returns None \<Rightarrow> Inr (JList [])
      | Returns (Some response) \<Rightarrow>
          if response = [] then Inr (JList [])
          else (case json_loads env (extract_json_text response) of
                  Inl e \<Rightarrow> if kind e = JSONDecodeError then Inr (JList []) else Inl e
                | Inr results \<Rightarrow> annotate_results results))"

definition search_trusted_sources :: "env \<Rightarrow> nat \<Rightarrow> json \<Rightarrow> json" where
  "search_trusted_sources env i query =
     (case search_trusted_sources_body env i query of
        Inl e \<Rightarrow> JList []
      | Inr results \<Rightarrow> results)"

subsection \<open>\<^verbatim>\<open>calculate_semantic_similarity\<close>\<close>

text \<open>
  The \<^verbatim>\<open>try\<close> raises when the service does, and also when \<^verbatim>\<open>text2[:8000]\<close> does. The
  handler then computes the lexical overlap, where \<^verbatim>\<open>text2.lower()\<close> raises out of
  the function unless \<open>text2\<close> is a string.
\<close>

definition calculate_semantic_similarity :: "env \<Rightarrow> nat \<Rightarrow> string \<Rightarrow> json \<Rightarrow> exn + real" where
  "calculate_semantic_similarity env i text1 text2 =
     (case (case py_slice 8000 text2 of
              Inl e \<Rightarrow> Raises e
            | Inr t \<Rightarrow> embedding_similarity env i text1 text2) of
        Returns similarity \<Rightarrow> Inr similarity
      | Raises e \<Rightarrow>
          (case text2 of
             JStr t2 \<Rightarrow> Inr (fallback_similarity text1 t2)
           | v \<Rightarrow> Inl (no_attribute v ''lower'')))"

subsection \<open>\<^verbatim>\<open>_determine_verdict\<close>\<close>

text \<open>
  Building the prompt serialises both lists with \<^verbatim>\<open>json.dumps\<close>; they hold values that
  came out of \<^verbatim>\<open>json.loads\<close> plus the two scores, so this does not raise and is part of
  \<open>verdict_reply\<close>.

  The fallback logic of lines 329-335.
\<close>

definition fallback_verdict :: "json list \<Rightarrow> json list \<Rightarrow> json \<times> real \<times> json" where
  "fallback_verdict supporting contradicting =
     (if length contradicting > length supporting
      then (JStr ''FALSE'', 60, JStr ''Multiple sources contradict this claim.'')
      else if length supporting > length contradicting
      then (JStr ''TRUE'', 60, JStr ''Multiple sources support this claim.'')
      else (JStr ''UNVERIFIED'', 30, JStr ''Insufficient evidence to verify this claim.''))"

text \<open>Lines 320-324: the three fields read from the parsed value, in this order.\<close>

definition parsed_verdict :: "env \<Rightarrow> json \<Rightarrow> exn + (json \<times> real \<times> json)" where
  "parsed_verdict env result =
     (case py_get result ''verdict'' (JStr ''UNVERIFIED'') of
        Inl e \<Rightarrow> Inl e
      | Inr verdict \<Rightarrow>
          (case py_get result ''confidence'' (JInt 50) of
             Inl e \<Rightarrow> Inl e
           | Inr c \<Rightarrow>
               (case py_float (float_of_str env) c of
                  Inl e \<Rightarrow> Inl e
                | Inr confidence \<Rightarrow>
                    (case py_get result ''explanation'' (JStr ''Unable to determine verdict'') of
                       Inl e \<Rightarrow> Inl e
                     | Inr explanation \<Rightarrow> Inr (verdict, confidence, explanation)))))"

definition determine_verdict_body ::
  "env \<Rightarrow> string \<Rightarrow> json list \<Rightarrow> json list \<Rightarrow> exn + (json \<times> real \<times> json)" where
  "determine_verdict_body env claim supporting contradicting =
     (case verdict_reply env claim supporting contradicting of
        Raises e \<Rightarrow> Inl e
      | Returns None \<Rightarrow> Inr (fallback_verdict supporting contradicting)
      | Returns (Some response) \<Rightarrow>
          if response = [] then Inr (fallback_verdict supporting contradicting)
          else (case json_loads env (extract_json_text response) of
                  Inl e \<Rightarrow>
                    if kind e = JSONDecodeError
                    then Inr (fallback_verdict supporting contradicting)
                    else Inl e
                | Inr result \<Rightarrow> parsed_verdict env result))"

definition determine_verdict ::
  "env \<Rightarrow> string \<Rightarrow> json list \<Rightarrow> json list \<Rightarrow> json \<times> real \<times> json" where
  "determine_verdict env claim supporting contradicting =
     (case determine_verdict_body env claim supporting contradicting of
        Inl e \<Rightarrow> (JStr ''UNVERIFIED'', 0, JStr (''Error during verification: '' @ msg e))
      | Inr r \<Rightarrow> r)"

subsection \<open>\<^verbatim>\<open>verify_claim\<close>\<close>

text \<open>
  Logging and the pause \<^verbatim>\<open>asyncio.sleep(0.5)\<close> between searches change no value and are
  left out. The confidences \<^verbatim>\<open>60\<close>, \<^verbatim>\<open>30\<close> and \<^verbatim>\<open>0\<close> of the fallback paths are Python
  integers; they are the reals of the same value here.
\<close>

text \<open>Step 2: every query is searched, and the answers are appended in order.\<close>

fun search_all :: "env \<Rightarrow> nat \<Rightarrow> json list \<Rightarrow> exn + json list" where
  "search_all env i [] = Inr []"
| "search_all env i (query # queries) =
     (case py_iter (search_trusted_sources env i query) of
        Inl e \<Rightarrow> Inl e
      | Inr sources \<Rightarrow>
          (case search_all env (Suc i) queries of
             Inl e \<Rightarrow> Inl e
           | Inr rest \<Rightarrow> Inr (sources @ rest)))"

text \<open>Step 3: the similarity of each source to the claim is stored in the source.\<close>

fun score_source :: "env \<Rightarrow> string \<Rightarrow> nat \<Rightarrow> json \<Rightarrow> exn + json" where
  "score_source env claim i (JDict kv) =
     (case calculate_semantic_similarity env i claim (dict_get kv ''relevant_text'' (JStr [])) of
        Inl e \<Rightarrow> Inl e
      | Inr similarity \<Rightarrow> Inr (JDict (AList.update ''similarity_score'' (JFloat similarity) kv)))"
| "score_source env claim i v = Inl (no_attribute v ''get'')"

fun score_all :: "env \<Rightarrow> string \<Rightarrow> nat \<Rightarrow> json list \<Rightarrow> exn + json list" where
  "score_all env claim i [] = Inr []"
| "score_all env claim i (source # sources) =
     (case score_source env claim i source of
        Inl e \<Rightarrow> Inl e
      | Inr s \<Rightarrow>
          (case score_all env claim (Suc i) sources of
             Inl e \<Rightarrow> Inl e
           | Inr rest \<Rightarrow> Inr (s # rest)))"

text \<open>
  Step 4, the test of one comprehension:
  \<^verbatim>\<open>s.get('stance') == label and s.get('similarity_score', 0) > 0.5\<close>.
  The comparison is evaluated only when the stance matches.
\<close>

definition in_partition :: "string \<Rightarrow> json \<Rightarrow> exn + bool" where
  "in_partition label s =
     (case py_get s ''stance'' JNull of
        Inl e \<Rightarrow> Inl e
      | Inr stance \<Rightarrow>
          if stance = JStr label
          then (case py_get s ''similarity_score'' (JInt 0) of
                  Inl e \<Rightarrow> Inl e
                | Inr v \<Rightarrow> py_gt v 0.5)
          else Inr False)"

definition categorize :: "json list \<Rightarrow> exn + (json list \<times> json list)" where
  "categorize all_sources =
     (case filter_exn (in_partition ''supports'') all_sources of
        Inl e \<Rightarrow> Inl e
      | Inr supporting \<Rightarrow>
          (case filter_exn (in_partition ''contradicts'') all_sources of
             Inl e \<Rightarrow> Inl e
           | Inr contradicting \<Rightarrow> Inr (supporting, contradicting)))"

text \<open>Steps 1 to 3: the scored evidence.\<close>

definition scored_sources :: "env \<Rightarrow> string \<Rightarrow> exn + json list" where
  "scored_sources env claim =
     (case py_iter (generate_search_queries env claim) of
        Inl e \<Rightarrow> Inl e
      | Inr queries \<Rightarrow>
          (case search_all env 0 queries of
             Inl e \<Rightarrow> Inl e
           | Inr all_sources \<Rightarrow> score_all env claim 0 all_sources))"

text \<open>Steps 1 to 4: the two partitions.\<close>

definition aggregate :: "env \<Rightarrow> string \<Rightarrow> exn + (json list \<times> json list)" where
  "aggregate env claim =
     (case scored_sources env claim of
        Inl e \<Rightarrow> Inl e
      | Inr all_sources \<Rightarrow> categorize all_sources)"

definition verify_claim_body :: "env \<Rightarrow> string \<Rightarrow> string \<Rightarrow> exn + (string \<times> json) list" where
  "verify_claim_body env claim claim_id =
     (case aggregate env claim of
        Inl e \<Rightarrow> Inl e
      | Inr (supporting, contradicting) \<Rightarrow>
          (case determine_verdict env claim supporting contradicting of
             (verdict, confidence, explanation) \<Rightarrow>
               Inr [(''claim_id'', JStr claim_id),
                    (''verdict'', verdict),
                    (''confidence'', JFloat confidence),
                    (''explanation'', explanation),
                    (''supporting_sources'', JList (take 3 supporting)),
                    (''contradicting_sources'', JList (take 3 contradicting))]))"

definition verify_claim :: "env \<Rightarrow> string \<Rightarrow> string \<Rightarrow> (string \<times> json) list" where
  "verify_claim env claim claim_id =
     (case verify_claim_body env claim claim_id of
        Inl e \<Rightarrow>
          [(''claim_id'', JStr claim_id),
           (''verdict'', JStr ''UNVERIFIED''),
           (''confidence'', JFloat 0),
           (''explanation'', JStr (''Verification failed due to technical error: '' @ msg e)),
           (''supporting_sources'', JList []),
           (''contradicting_sources'', JList [])]
      | Inr result \<Rightarrow> result)"

section \<open>Sample environments\<close>

text \<open>
  Concrete behaviours of the external services, used to run the functions above on
  explicit inputs. In \<open>offline_env\<close> every service raises and no text parses.
\<close>

definition unreachable :: exn where
  "unreachable = Exn OtherError ''Connection error.''"

definition decode_error :: exn where
  "decode_error = Exn JSONDecodeError ''Expecting value: line 1 column 1 (char 0)''"

definition offline_env :: env where
  "offline_env =
     \<lparr> query_reply = (\<lambda>claim. Raises unreachable),
       evidence_reply = (\<lambda>i query. Raises unreachable),
       embedding_similarity = (\<lambda>i text1 text2. Raises unreachable),
       verdict_reply = (\<lambda>claim supporting contradicting. Raises unreachable),
       json_loads = (\<lambda>t. Inl decode_error),
       float_of_str = (\<lambda>s. None) \<rparr>"

text \<open>
  In \<open>sample_env\<close> the query planner and the verdict synthesizer answer with prose, so
  both fall back; the evidence source answers with a fenced JSON array of eight items,
  and the embedding service scores them in order, failing on the sixth.
\<close>

definition sample_evidence_text :: string where
  \<open>sample_evidence_text =
     ''[{"stance": "supports", "relevant_text": "blue sky"}, '' @
     ''{"stance": "supports", "relevant_text": "sky"}, '' @
     ''{"stance": "contradicts", "relevant_text": "red sky"}, '' @
     ''{"stance": "supports", "relevant_text": "sky blue"}, '' @
     ''{"stance": "neutral", "relevant_text": "sky is blue"}, '' @
     ''{"stance": "supports", "relevant_text": "the sky is grey"}, '' @
     ''{"stance": "supports", "relevant_text": "it is blue"}, '' @
     ''{"stance": "supports", "relevant_text": "the sky is blue"}]''\<close>

definition sample_evidence_reply :: string where
  "sample_evidence_reply =
     ''```json'' @ [CHR 0x0A] @ sample_evidence_text @ [CHR 0x0A] @ ''```'' @ [CHR 0x0A]"

definition sample_evidence :: json where
  "sample_evidence =
     JList [JDict [(''stance'', JStr ''supports''), (''relevant_text'', JStr ''blue sky'')],
            JDict [(''stance'', JStr ''supports''), (''relevant_text'', JStr ''sky'')],
            JDict [(''stance'', JStr ''contradicts''), (''relevant_text'', JStr ''red sky'')],
            JDict [(''stance'', JStr ''supports''), (''relevant_text'', JStr ''sky blue'')],
            JDict [(''stance'', JStr ''neutral''), (''relevant_text'', JStr ''sky is blue'')],
            JDict [(''stance'', JStr ''supports''), (''relevant_text'', JStr ''the sky is grey'')],
            JDict [(''stance'', JStr ''supports''), (''relevant_text'', JStr ''it is blue'')],
            JDict [(''stance'', JStr ''supports''), (''relevant_text'', JStr ''the sky is blue'')]]"

definition sample_scores :: "real outcome list" where
  "sample_scores =
     [Returns 0.9, Returns 0.5, Returns 0.8, Returns 0.7, Returns 0.95,
      Raises unreachable, Returns 0.6, Returns 0.99]"

definition sample_env :: env where
  "sample_env =
     \<lparr> query_reply = (\<lambda>claim. Returns (Some ''Sorry, I cannot help with that.'')),
       evidence_reply =
         (\<lambda>i query. Returns (Some sample_evidence_reply)),
       embedding_similarity =
         (\<lambda>i text1 text2. if i < length sample_scores then sample_scores ! i
                           else Raises unreachable),
       verdict_reply =
         (\<lambda>claim supporting contradicting. Returns (Some ''The claim appears to be true.'')),
       json_loads = (\<lambda>t. if t = sample_evidence_text then Inr sample_evidence
                          else Inl decode_error),
       float_of_str = (\<lambda>s. None) \<rparr>"

text \<open>The eight items after the search, and after scoring against \<^verbatim>\<open>the sky is blue\<close>.\<close>

definition sample_found :: "json list" where
  "sample_found =
     [JDict [(''stance'', JStr ''supports''), (''relevant_text'', JStr ''blue sky''),
             (''credibility_score'', JInt 70)],
      JDict [(''stance'', JStr ''supports''), (''relevant_text'', JStr ''sky''),
             (''credibility_score'', JInt 70)],
      JDict [(''stance'', JStr ''contradicts''), (''relevant_text'', JStr ''red sky''),
             (''credibility_score'', JInt 70)],
      JDict [(''stance'', JStr ''supports''), (''relevant_text'', JStr ''sky blue''),
             (''credibility_score'', JInt 70)],
      JDict [(''stance'', JStr ''neutral''), (''relevant_text'', JStr ''sky is blue''),
             (''credibility_score'', JInt 70)],
      JDict [(''stance'', JStr ''supports''), (''relevant_text'', JStr ''the sky is grey''),
             (''credibility_score'', JInt 70)],
      JDict [(''stance'', JStr ''supports''), (''relevant_text'', JStr ''it is blue''),
             (''credibility_score'', JInt 70)],
      JDict [(''stance'', JStr ''supports''), (''relevant_text'', JStr ''the sky is blue''),
             (''credibility_score'', JInt 70)]]"

definition sample_scored :: "json list" where
  "sample_scored =
     [JDict [(''stance'', JStr ''supports''), (''relevant_text'', JStr ''blue sky''),
             (''credibility_score'', JInt 70), (''similarity_score'', JFloat 0.9)],
      JDict [(''stance'', JStr ''supports''), (''relevant_text'', JStr ''sky''),
             (''credibility_score'', JInt 70), (''similarity_score'', JFloat 0.5)],
      JDict [(''stance'', JStr ''contradicts''), (''relevant_text'', JStr ''red sky''),
             (''credibility_score'', JInt 70), (''similarity_score'', JFloat 0.8)],
      JDict [(''stance'', JStr ''supports''), (''relevant_text'', JStr ''sky blue''),
             (''credibility_score'', JInt 70), (''similarity_score'', JFloat 0.7)],
      JDict [(''stance'', JStr ''neutral''), (''relevant_text'', JStr ''sky is blue''),
             (''credibility_score'', JInt 70), (''similarity_score'', JFloat 0.95)],
      JDict [(''stance'', JStr ''supports''), (''relevant_text'', JStr ''the sky is grey''),
             (''credibility_score'', JInt 70), (''similarity_score'', JFloat 0.375)],
      JDict [(''stance'', JStr ''supports''), (''relevant_text'', JStr ''it is blue''),
             (''credibility_score'', JInt 70), (''similarity_score'', JFloat 0.6)],
      JDict [(''stance'', JStr ''supports''), (''relevant_text'', JStr ''the sky is blue''),
             (''credibility_score'', JInt 70), (''similarity_score'', JFloat 0.99)]]"

text \<open>The evidence source is down and the verdict synthesizer answers with prose.\<close>

definition evidence_down_env :: env where
  "evidence_down_env =
     offline_env \<lparr> verdict_reply :=
       (\<lambda>claim supporting contradicting. Returns (Some ''I am not sure.'')) \<rparr>"

text \<open>The evidence source returns an item whose \<^verbatim>\<open>relevant_text\<close> is a number.\<close>

definition malformed_reply :: string where
  \<open>malformed_reply = ''[{"relevant_text": 5}]''\<close>

definition malformed_env :: env where
  "malformed_env =
     offline_env \<lparr>
       evidence_reply := (\<lambda>i query. Returns (Some malformed_reply)),
       json_loads := (\<lambda>t. if t = malformed_reply
                            then Inr (JList [JDict [(''relevant_text'', JInt 5)]])
                            else Inl decode_error) \<rparr>"

text \<open>
  The verdict synthesizer returns well-formed JSON with a verdict outside the four
  documented values and a confidence above 100.
\<close>

definition unclamped_reply :: string where
  \<open>unclamped_reply = ''{"verdict": "MAYBE", "confidence": 150}''\<close>

definition unclamped_env :: env where
  "unclamped_env =
     offline_env \<lparr>
       verdict_reply := (\<lambda>claim supporting contradicting. Returns (Some unclamped_reply)),
       json_loads := (\<lambda>t. if t = unclamped_reply
                            then Inr (JDict [(''verdict'', JStr ''MAYBE''),
                                             (''confidence'', JInt 150)])
                            else Inl decode_error) \<rparr>"

section \<open>Properties of the text primitives\<close>

lemma lower_char_cases:
  "lower_char c = c \<or> (c \<in> set cased_upper \<and> lower_char c \<in> set cased_lower)"
proof (cases "map_of (zip cased_upper cased_lower) c")
  case None
  then show ?thesis by (simp add: lower_char_def)
next
  case (Some l)
  then have "(c, l) \<in> set (zip cased_upper cased_lower)"
    by (rule map_of_SomeD)
  then have "c \<in> set cased_upper \<and> l \<in> set cased_lower"
    by (metis set_zip_leftD set_zip_rightD)
  with Some show ?thesis by (simp add: lower_char_def)
qed

lemma cased_upper_not_space: "x \<in> set cased_upper \<Longrightarrow> \<not> is_space x"
  by (auto simp: is_space_def cased_upper_def)

lemma cased_lower_not_space: "x \<in> set cased_lower \<Longrightarrow> \<not> is_space x"
  by (auto simp: is_space_def cased_lower_def)

lemma is_space_lower_char: "is_space (lower_char c) = is_space c"
  using lower_char_cases [of c] cased_upper_not_space cased_lower_not_space by metis

lemma split_acc_lower:
  "split_acc (py_lower cur) (py_lower s) = map py_lower (split_acc cur s)"
  by (induction cur s rule: split_acc.induct)
     (simp_all add: py_lower_def is_space_lower_char)

lemma length_split_lower: "length (py_split (py_lower s)) = length (py_split s)"
proof -
  have "py_split (py_lower s) = map py_lower (py_split s)"
    using split_acc_lower [of "[]" s] by (simp add: py_split_def py_lower_def)
  then show ?thesis by simp
qed

lemma card_common_words_le:
  "card (common_words text1 text2)
     \<le> max (max (length (py_split text1)) (length (py_split text2))) 1"
proof -
  have "card (common_words text1 text2) \<le> card (set (py_split (py_lower text1)))"
    unfolding common_words_def by (intro card_mono) auto
  also have "\<dots> \<le> length (py_split (py_lower text1))"
    by (rule card_length)
  also have "\<dots> = length (py_split text1)"
    by (rule length_split_lower)
  finally show ?thesis by simp
qed

lemma fallback_similarity_range:
  "0 \<le> fallback_similarity text1 text2 \<and> fallback_similarity text1 text2 \<le> 0.5"
proof -
  let ?n = "card (common_words text1 text2)"
  let ?m = "max (max (length (py_split text1)) (length (py_split text2))) 1"
  have m: "0 < real ?m" by simp
  have "real ?n \<le> real ?m"
    using card_common_words_le [of text1 text2] by (simp only: of_nat_le_iff)
  then have "real ?n / real ?m \<le> 1"
    using m by (simp only: divide_le_eq_1_pos)
  moreover have "0 \<le> real ?n / real ?m" by simp
  ultimately show ?thesis
    unfolding fallback_similarity_def by simp
qed

lemma card_common_words_le2:
  "card (common_words text1 text2) \<le> length (py_split text1)
   \<and> card (common_words text1 text2) \<le> length (py_split text2)"
proof
  have "card (common_words text1 text2) \<le> card (set (py_split (py_lower text1)))"
    unfolding common_words_def by (intro card_mono) auto
  also have "\<dots> \<le> length (py_split (py_lower text1))" by (rule card_length)
  finally show "card (common_words text1 text2) \<le> length (py_split text1)"
    by (simp add: length_split_lower)
  have "card (common_words text1 text2) \<le> card (set (py_split (py_lower text2)))"
    unfolding common_words_def by (intro card_mono) auto
  also have "\<dots> \<le> length (py_split (py_lower text2))" by (rule card_length)
  finally show "card (common_words text1 text2) \<le> length (py_split text2)"
    by (simp add: length_split_lower)
qed

subsection \<open>Whitespace and lower-casing by code point\<close>

text \<open>
  The two tables, read as numbers: \<open>is_space\<close> holds of the twelve code points
  9-13, 28-32, 133 and 160, and \<open>lower_char\<close> adds 32 to the code points 65-90 and
  192-222 other than 215 and changes no other.
\<close>

lemma is_space_code_points:
  "is_space c \<longleftrightarrow> (of_char c :: nat) \<in> set [9, 10, 11, 12, 13, 28, 29, 30, 31, 32, 133, 160]"
proof -
  have eq: "c = d \<longleftrightarrow> (of_char c :: nat) = of_char d" for d :: char
    by simp
  show ?thesis
    unfolding is_space_def set_simps insert_iff empty_iff
    by (simp only: eq [of "CHR 0x09"] eq [of "CHR 0x0A"] eq [of "CHR 0x0B"] eq [of "CHR 0x0C"]
        eq [of "CHR 0x0D"] eq [of "CHR 0x1C"] eq [of "CHR 0x1D"] eq [of "CHR 0x1E"]
        eq [of "CHR 0x1F"] eq [of "CHR 0x20"] eq [of "CHR 0x85"] eq [of "CHR 0xA0"]) simp
qed

lemma cased_upper_code_points:
  "map of_char cased_upper = [65 ..< 91] @ [192 ..< 215] @ [216 ..< (223 :: nat)]"
  by (simp add: cased_upper_def upt_rec_numeral)

lemma cased_lower_code_points:
  "map of_char cased_lower = map (\<lambda>n. n + 32) (map of_char cased_upper :: nat list)"
  by (simp add: cased_upper_def cased_lower_def)

lemma lower_char_cased:
  "i < length cased_upper \<Longrightarrow> lower_char (cased_upper ! i) = cased_lower ! i"
proof -
  have d: "distinct cased_upper" by (simp add: cased_upper_def)
  have l: "length cased_upper = length cased_lower" by (simp add: cased_upper_def cased_lower_def)
  assume "i < length cased_upper"
  then have "map_of (zip cased_upper cased_lower) (cased_upper ! i) = Some (cased_lower ! i)"
    using d l by (simp add: map_of_zip_nth)
  then show ?thesis by (simp add: lower_char_def)
qed

lemma lower_char_uncased: "c \<notin> set cased_upper \<Longrightarrow> lower_char c = c"
proof -
  have l: "length cased_upper = length cased_lower" by (simp add: cased_upper_def cased_lower_def)
  assume "c \<notin> set cased_upper"
  then have "map_of (zip cased_upper cased_lower) c = None"
    using l by (simp add: map_of_zip_is_None)
  then show ?thesis by (simp add: lower_char_def)
qed

lemma cased_upper_iff:
  "c \<in> set cased_upper \<longleftrightarrow>
     (65 \<le> (of_char c :: nat) \<and> (of_char c :: nat) \<le> 90)
     \<or> (192 \<le> (of_char c :: nat) \<and> (of_char c :: nat) \<le> 222 \<and> (of_char c :: nat) \<noteq> 215)"
proof -
  have "c \<in> set cased_upper \<longleftrightarrow> (of_char c :: nat) \<in> of_char ` set cased_upper"
    by (auto simp: image_iff)
  also have "of_char ` set cased_upper = set (map of_char cased_upper :: nat list)" by simp
  also have "\<dots> = set ([65 ..< 91] @ [192 ..< 215] @ [216 ..< (223 :: nat)])"
    by (simp only: cased_upper_code_points)
  finally have "c \<in> set cased_upper \<longleftrightarrow>
      (of_char c :: nat) \<in> {65 ..< 91} \<union> ({192 ..< 215} \<union> {216 ..< 223})"
    by (simp only: set_append set_upt)
  then show ?thesis
    by (simp only: Un_iff atLeastLessThan_iff) arith
qed

lemma lower_char_code_point:
  "(of_char (lower_char c) :: nat) =
     (if (65 \<le> (of_char c :: nat) \<and> (of_char c :: nat) \<le> 90)
         \<or> (192 \<le> (of_char c :: nat) \<and> (of_char c :: nat) \<le> 222 \<and> (of_char c :: nat) \<noteq> 215)
      then of_char c + 32 else of_char c)"
proof (cases "c \<in> set cased_upper")
  case True
  then obtain i where i: "i < length cased_upper" "c = cased_upper ! i"
    by (auto simp: in_set_conv_nth)
  have len: "length cased_lower = length cased_upper"
    by (simp add: cased_upper_def cased_lower_def)
  have "(of_char (lower_char c) :: nat) = map of_char cased_lower ! i"
    using i len by (simp add: lower_char_cased)
  also have "\<dots> = map (\<lambda>n. n + 32) (map of_char cased_upper :: nat list) ! i"
    by (simp only: cased_lower_code_points)
  also have "\<dots> = of_char c + 32" using i by simp
  finally show ?thesis using True by (simp only: cased_upper_iff if_True)
next
  case False
  then show ?thesis by (simp add: lower_char_uncased cased_upper_iff)
qed

subsection \<open>The code's score is the specification's\<close>

lemma spec_tokens_Nil: "spec_tokens [] = []"
  by (subst spec_tokens.simps) simp

lemma spec_tokens_space: "is_space c \<Longrightarrow> spec_tokens (c # cs) = spec_tokens cs"
  by (subst spec_tokens.simps, subst (2) spec_tokens.simps) simp

lemma spec_tokens_token:
  "\<not> is_space c \<Longrightarrow>
     spec_tokens (c # cs) =
       (c # takeWhile (\<lambda>c. \<not> is_space c) cs) # spec_tokens (dropWhile (\<lambda>c. \<not> is_space c) cs)"
  by (subst spec_tokens.simps) simp

lemma split_acc_spec_tokens:
  "split_acc cur s =
     (if cur @ takeWhile (\<lambda>c. \<not> is_space c) s = [] then spec_tokens s
      else (cur @ takeWhile (\<lambda>c. \<not> is_space c) s) # spec_tokens (dropWhile (\<lambda>c. \<not> is_space c) s))"
proof (induction cur s rule: split_acc.induct)
  case (1 cur)
  show ?case by (simp add: spec_tokens_Nil)
next
  case (2 cur c cs)
  show ?case
  proof (cases "is_space c")
    case True
    have nil: "split_acc [] cs = spec_tokens cs"
    proof (cases cs)
      case Nil
      then show ?thesis by (simp add: spec_tokens_Nil)
    next
      case (Cons d ds)
      show ?thesis
      proof (cases "is_space d")
        case sp: True
        have "split_acc [] cs = spec_tokens cs \<or> cur \<noteq> []" if "cur = []"
          using "2.IH"(1) [OF True that] sp Cons by simp
        moreover have "split_acc [] cs = spec_tokens cs" if "cur \<noteq> []"
          using "2.IH"(2) [OF True that] sp Cons by simp
        ultimately show ?thesis by blast
      next
        case nsp: False
        have "split_acc [] cs = spec_tokens cs" if "cur = []"
          using "2.IH"(1) [OF True that] nsp Cons by (simp add: spec_tokens_token)
        moreover have "split_acc [] cs = spec_tokens cs" if "cur \<noteq> []"
          using "2.IH"(2) [OF True that] nsp Cons by (simp add: spec_tokens_token)
        ultimately show ?thesis by blast
      qed
    qed
    with True show ?thesis by (simp add: spec_tokens_space)
  next
    case False
    with "2.IH"(3) [OF False] show ?thesis by simp
  qed
qed

lemma py_split_spec_tokens: "py_split s = spec_tokens s"
proof (cases s)
  case Nil
  then show ?thesis by (simp add: py_split_def spec_tokens_Nil)
next
  case (Cons c cs)
  then show ?thesis
    using split_acc_spec_tokens [of "[]" s]
    by (cases "is_space c") (simp_all add: py_split_def spec_tokens_token)
qed

lemma card_common_words_spec:
  "card (common_words text1 text2) = length (spec_shared_tokens text1 text2)"
proof -
  have "common_words text1 text2 =
          set (filter (\<lambda>w. w \<in> set (spec_tokens (py_lower text2))) (spec_tokens (py_lower text1)))"
    by (auto simp: common_words_def py_split_spec_tokens)
  then show ?thesis
    by (simp only: spec_shared_tokens_def card_set)
qed

lemma fallback_similarity_spec: "fallback_similarity text1 text2 = spec_overlap_score text1 text2"
  by (simp add: fallback_similarity_def spec_overlap_score_def card_common_words_spec
      py_split_spec_tokens)

subsection \<open>The fallback score on sample texts\<close>

lemma overlap_sky: "spec_overlap_score ''the sky is blue'' ''the sky is grey'' = 0.375"
  by code_simp

lemma overlap_mixed_case:
  "spec_overlap_score (''The SKY  is'' @ [CHR 0x09] @ ''blue'' @ [CHR 0x0A]) ''the sky is Grey''
     = 0.375"
  by code_simp

lemma overlap_latin1_capital:
  "spec_overlap_score (''CAF'' @ [CHR 0xC9]) (''caf'' @ [CHR 0xE9]) = 0.5"
  by code_simp

lemma overlap_no_break_space:
  "spec_overlap_score [CHR ''a'', CHR 0xA0, CHR ''b''] ''a b'' = 0.5"
  by code_simp

lemma overlap_empty: "spec_overlap_score [] [] = 0"
  by code_simp

lemma overlap_repeated: "spec_overlap_score ''a a a a'' ''A'' = 0.125"
  by code_simp

lemma overlap_separators:
  "spec_overlap_score ([CHR ''x'', CHR 0x85, CHR ''y'', CHR '' '', CHR 0x1F] @ ''z w'') ''Z y''
     = 0.25"
  by code_simp

section \<open>Properties of the pipeline's steps\<close>

subsection \<open>Filtering and scoring\<close>

lemma filter_exn_Inr:
  "filter_exn p xs = Inr ys \<Longrightarrow> ys = filter (\<lambda>x. p x = Inr True) xs"
  by (induction xs arbitrary: ys) (auto split: sum.splits if_splits)

lemma filter_exn_total:
  "(\<And>x. x \<in> set xs \<Longrightarrow> \<exists>b. p x = Inr b) \<Longrightarrow> filter_exn p xs = Inr (filter (\<lambda>x. p x = Inr True) xs)"
proof (induction xs)
  case Nil
  then show ?case by simp
next
  case (Cons x xs)
  then obtain b where b: "p x = Inr b" by auto
  have "filter_exn p xs = Inr (filter (\<lambda>x. p x = Inr True) xs)"
    using Cons by simp
  with b show ?case by simp
qed

lemma score_source_shape:
  "score_source env claim i s = Inr s' \<Longrightarrow>
     \<exists>kv r. s' = JDict kv \<and> map_of kv ''similarity_score'' = Some (JFloat r)"
  by (cases s) (auto split: sum.splits simp: update_conv')

lemma score_all_shape:
  "score_all env claim i srcs = Inr all_sources \<Longrightarrow> s \<in> set all_sources \<Longrightarrow>
     \<exists>kv r. s = JDict kv \<and> map_of kv ''similarity_score'' = Some (JFloat r)"
proof (induction srcs arbitrary: i all_sources)
  case Nil
  then show ?case by simp
next
  case (Cons a srcs)
  from Cons.prems obtain s0 rest where
    s0: "score_source env claim i a = Inr s0" and
    rest: "score_all env claim (Suc i) srcs = Inr rest" and
    all: "all_sources = s0 # rest"
    by (auto split: sum.splits)
  from Cons.prems(2) all consider "s = s0" | "s \<in> set rest" by auto
  then show ?case
  proof cases
    case 1
    with s0 show ?thesis using score_source_shape by blast
  next
    case 2
    with rest show ?thesis by (rule Cons.IH)
  qed
qed

lemma score_all_nth:
  "score_all env claim i srcs = Inr all_sources \<Longrightarrow>
     length all_sources = length srcs \<and>
     (\<forall>k < length srcs. score_source env claim (i + k) (srcs ! k) = Inr (all_sources ! k))"
proof (induction srcs arbitrary: i all_sources)
  case Nil
  then show ?case by simp
next
  case (Cons a srcs)
  from Cons.prems obtain s rest where
    s: "score_source env claim i a = Inr s" and
    rest: "score_all env claim (Suc i) srcs = Inr rest" and
    all: "all_sources = s # rest"
    by (auto split: sum.splits)
  from Cons.IH [OF rest] have len: "length rest = length srcs"
    and nth: "\<And>k. k < length srcs \<Longrightarrow> score_source env claim (Suc i + k) (srcs ! k) = Inr (rest ! k)"
    by auto
  show ?case
  proof (intro conjI allI impI)
    show "length all_sources = length (a # srcs)" using len all by simp
  next
    fix k assume "k < length (a # srcs)"
    then show "score_source env claim (i + k) ((a # srcs) ! k) = Inr (all_sources ! k)"
      using s nth all by (cases k) auto
  qed
qed

lemma in_partition_scored:
  "map_of kv ''similarity_score'' = Some (JFloat r) \<Longrightarrow>
   in_partition label (JDict kv) = Inr (dict_get kv ''stance'' JNull = JStr label \<and> r > 0.5)"
  by (simp add: in_partition_def dict_get_def)

lemma in_partition_True_iff:
  assumes "s = JDict kv" and "map_of kv ''similarity_score'' = Some (JFloat r)"
  shows "in_partition label s = Inr True \<longleftrightarrow>
           py_get s ''stance'' JNull = Inr (JStr label)
           \<and> (\<exists>x. py_get s ''similarity_score'' (JInt 0) = Inr (JFloat x) \<and> x > 0.5)"
  using assms by (simp add: in_partition_scored dict_get_def)

lemma scored_sources_shape:
  assumes "scored_sources env claim = Inr all_sources" and "s \<in> set all_sources"
  shows "\<exists>kv r. s = JDict kv \<and> map_of kv ''similarity_score'' = Some (JFloat r)"
proof -
  from assms(1) obtain srcs where "score_all env claim 0 srcs = Inr all_sources"
    unfolding scored_sources_def by (auto split: sum.splits)
  then show ?thesis using assms(2) by (rule score_all_shape)
qed

lemma categorize_scored:
  assumes "\<And>s. s \<in> set all_sources \<Longrightarrow>
              \<exists>kv r. s = JDict kv \<and> map_of kv ''similarity_score'' = Some (JFloat r)"
  shows "categorize all_sources =
           Inr (filter (\<lambda>s. in_partition ''supports'' s = Inr True) all_sources,
                filter (\<lambda>s. in_partition ''contradicts'' s = Inr True) all_sources)"
proof -
  have tot: "\<exists>b. in_partition label s = Inr b" if "s \<in> set all_sources" for s label
    using assms [OF that] in_partition_scored by blast
  have "filter_exn (in_partition label) all_sources =
          Inr (filter (\<lambda>s. in_partition label s = Inr True) all_sources)" for label
    by (rule filter_exn_total) (rule tot)
  then show ?thesis by (simp add: categorize_def)
qed

lemma aggregate_scored:
  assumes "scored_sources env claim = Inr all_sources"
  shows "aggregate env claim =
           Inr (filter (\<lambda>s. in_partition ''supports'' s = Inr True) all_sources,
                filter (\<lambda>s. in_partition ''contradicts'' s = Inr True) all_sources)"
proof -
  have "categorize all_sources =
           Inr (filter (\<lambda>s. in_partition ''supports'' s = Inr True) all_sources,
                filter (\<lambda>s. in_partition ''contradicts'' s = Inr True) all_sources)"
    by (rule categorize_scored) (rule scored_sources_shape [OF assms])
  then show ?thesis by (simp add: aggregate_def assms)
qed

lemma take_filter_subseq: "subseq (take n (filter P xs)) xs"
proof -
  have "subseq (take n (filter P xs)) (filter P xs)"
    by (rule prefix_imp_subseq) (rule take_is_prefix)
  also have "subseq (filter P xs) xs" by simp
  finally show ?thesis .
qed

lemma calculate_similarity_fallback:
  "embedding_similarity env i text1 (JStr text2) = Raises e \<Longrightarrow>
     calculate_semantic_similarity env i text1 (JStr text2) = Inr (fallback_similarity text1 text2)"
  by (simp add: calculate_semantic_similarity_def)

lemma score_source_fallback:
  assumes "score_source env claim i (JDict kv) = Inr s"
    and "embedding_similarity env i claim (dict_get kv ''relevant_text'' (JStr [])) = Raises e"
  shows "in_partition label s = Inr False"
proof -
  let ?t = "dict_get kv ''relevant_text'' (JStr [])"
  from assms(1) obtain sim where
    sim: "calculate_semantic_similarity env i claim ?t = Inr sim" and
    s: "s = JDict (AList.update ''similarity_score'' (JFloat sim) kv)"
    by (auto split: sum.splits)
  have raises: "(case py_slice 8000 ?t of Inl e \<Rightarrow> Raises e
                 | Inr t \<Rightarrow> embedding_similarity env i claim ?t) = Raises e
              \<or> (\<exists>e'. py_slice 8000 ?t = Inl e')"
    using assms(2) by (auto split: sum.splits)
  have "\<exists>t2. ?t = JStr t2 \<and> sim = fallback_similarity claim t2"
    using sim raises unfolding calculate_semantic_similarity_def
    by (cases ?t) (auto split: sum.splits outcome.splits)
  then have "sim \<le> 0.5" using fallback_similarity_range by auto
  moreover have "in_partition label s =
      Inr (dict_get (AList.update ''similarity_score'' (JFloat sim) kv) ''stance'' JNull = JStr label
           \<and> sim > 0.5)"
    unfolding s by (rule in_partition_scored) (simp add: update_conv')
  ultimately show ?thesis by simp
qed

subsection \<open>Queries and searches\<close>

lemma generate_search_queries_cases:
  "generate_search_queries env claim = JList [JStr claim]
   \<or> (\<exists>xs. generate_search_queries env claim = JList (take 3 xs))
   \<or> (\<exists>s. generate_search_queries env claim = JStr (take 3 s))"
proof (cases "generate_search_queries_body env claim")
  case (Inl e)
  then show ?thesis by (simp add: generate_search_queries_def)
next
  case (Inr q)
  have "q = JList [JStr claim] \<or> (\<exists>v. py_slice 3 v = Inr q)"
    using Inr unfolding generate_search_queries_body_def
    by (auto split: outcome.splits option.splits if_splits sum.splits)
  moreover have "py_slice 3 v = Inr q \<Longrightarrow> (\<exists>xs. q = JList (take 3 xs)) \<or> (\<exists>s. q = JStr (take 3 s))" for v
    by (cases v) auto
  ultimately show ?thesis
    using Inr by (auto simp: generate_search_queries_def)
qed

lemma generate_search_queries_iter:
  "\<exists>queries. py_iter (generate_search_queries env claim) = Inr queries \<and> length queries \<le> 3"
  using generate_search_queries_cases [of env claim] by auto

lemma generate_search_queries_fallback:
  assumes "(\<exists>e. query_reply env claim = Raises e)
         \<or> query_reply env claim = Returns None
         \<or> query_reply env claim = Returns (Some [])
         \<or> (\<exists>response e. query_reply env claim = Returns (Some response)
                \<and> json_loads env (extract_json_text response) = Inl e
                \<and> kind e = JSONDecodeError)"
  shows "generate_search_queries env claim = JList [JStr claim]"
  using assms
  by (auto simp: generate_search_queries_def generate_search_queries_body_def)

lemma search_raises_empty:
  "evidence_reply env i query = Raises e \<Longrightarrow> search_trusted_sources env i query = JList []"
  by (simp add: search_trusted_sources_def search_trusted_sources_body_def)

lemma search_all_empty:
  "(\<And>i query. search_trusted_sources env i query = JList []) \<Longrightarrow> search_all env i queries = Inr []"
  by (induction queries arbitrary: i) simp_all

subsection \<open>Verdict and result\<close>

lemma determine_verdict_unparseable:
  assumes "verdict_reply env claim supporting contradicting = Returns None
         \<or> verdict_reply env claim supporting contradicting = Returns (Some [])
         \<or> (\<exists>response e. verdict_reply env claim supporting contradicting = Returns (Some response)
                \<and> json_loads env (extract_json_text response) = Inl e
                \<and> kind e = JSONDecodeError)"
  shows "determine_verdict env claim supporting contradicting = fallback_verdict supporting contradicting"
  using assms
  by (auto simp: determine_verdict_def determine_verdict_body_def)

lemma verify_claim_keys:
  "map fst (verify_claim env claim claim_id) =
     [''claim_id'', ''verdict'', ''confidence'', ''explanation'',
      ''supporting_sources'', ''contradicting_sources'']"
  by (auto simp: verify_claim_def verify_claim_body_def split: sum.splits prod.splits)

section \<open>The sample environments, evaluated\<close>

lemma sample_extract:
  "extract_json_text sample_evidence_reply = sample_evidence_text"
  by code_simp

lemma sample_annotate: "annotate_results sample_evidence = Inr (JList sample_found)"
  by code_simp

lemma sample_queries:
  "generate_search_queries sample_env claim = JList [JStr claim]"
proof -
  have "extract_json_text ''Sorry, I cannot help with that.'' \<noteq> sample_evidence_text"
    by code_simp
  then show ?thesis
    by (simp add: generate_search_queries_def generate_search_queries_body_def sample_env_def
        decode_error_def)
qed

lemma sample_reply_nonempty: "sample_evidence_reply \<noteq> []"
  by (simp add: sample_evidence_reply_def)

lemma sample_search: "search_trusted_sources sample_env i query = JList sample_found"
  by (simp add: sample_reply_nonempty search_trusted_sources_def search_trusted_sources_body_def sample_env_def
      sample_extract sample_annotate)

lemma sample_fallback: "fallback_similarity ''the sky is blue'' ''the sky is grey'' = 0.375"
  by code_simp

lemma sample_score_all: "score_all sample_env ''the sky is blue'' 0 sample_found = Inr sample_scored"
  by (simp add: sample_found_def sample_scored_def calculate_semantic_similarity_def
      dict_get_def sample_env_def sample_scores_def sample_fallback)

lemma sample_scored_sources: "scored_sources sample_env ''the sky is blue'' = Inr sample_scored"
  by (simp add: scored_sources_def sample_queries sample_search sample_score_all)

lemma sample_aggregate:
  "aggregate sample_env ''the sky is blue'' =
     Inr ([sample_scored ! 0, sample_scored ! 3, sample_scored ! 6, sample_scored ! 7],
          [sample_scored ! 2])"
  by (simp add: aggregate_def sample_scored_sources categorize_def in_partition_def
      dict_get_def sample_scored_def)

lemma sample_categorize:
  "categorize sample_scored =
     Inr ([sample_scored ! 0, sample_scored ! 3, sample_scored ! 6, sample_scored ! 7],
          [sample_scored ! 2])"
  using sample_aggregate by (simp add: aggregate_def sample_scored_sources)

lemma sample_verdict_unparseable:
  "json_loads sample_env (extract_json_text ''The claim appears to be true.'') = Inl decode_error"
proof -
  have "extract_json_text ''The claim appears to be true.'' \<noteq> sample_evidence_text"
    by code_simp
  then show ?thesis by (simp add: sample_env_def)
qed

lemma malformed_extract: "extract_json_text malformed_reply = malformed_reply"
  by code_simp

lemma malformed_annotate:
  "annotate_results (JList [JDict [(''relevant_text'', JInt 5)]]) =
     Inr (JList [JDict [(''relevant_text'', JInt 5), (''credibility_score'', JInt 70)]])"
  by code_simp

lemma malformed_search:
  "search_trusted_sources malformed_env i query =
     JList [JDict [(''relevant_text'', JInt 5), (''credibility_score'', JInt 70)]]"
proof -
  have "malformed_reply \<noteq> []" by (simp add: malformed_reply_def)
  then show ?thesis
    by (simp add: search_trusted_sources_def search_trusted_sources_body_def malformed_env_def
        offline_env_def malformed_extract malformed_annotate)
qed

lemma malformed_queries: "generate_search_queries malformed_env claim = JList [JStr claim]"
  by (simp add: generate_search_queries_def generate_search_queries_body_def malformed_env_def
      offline_env_def)

lemma malformed_body:
  "verify_claim_body malformed_env claim claim_id = Inl (no_attribute (JInt 5) ''lower'')"
  by (simp add: verify_claim_body_def aggregate_def scored_sources_def malformed_queries
      malformed_search calculate_semantic_similarity_def dict_get_def)

lemma unclamped_aggregate: "aggregate unclamped_env claim = Inr ([], [])"
  by (simp add: aggregate_def scored_sources_def generate_search_queries_def
      generate_search_queries_body_def search_trusted_sources_def
      search_trusted_sources_body_def categorize_def unclamped_env_def offline_env_def)

lemma unclamped_extract: "extract_json_text unclamped_reply = unclamped_reply"
  by code_simp

lemma unclamped_verdict:
  "determine_verdict unclamped_env claim supporting contradicting =
     (JStr ''MAYBE'', 150, JStr ''Unable to determine verdict'')"
proof -
  have "unclamped_reply \<noteq> []" by (simp add: unclamped_reply_def)
  then show ?thesis
    by (simp add: determine_verdict_def determine_verdict_body_def unclamped_env_def
        offline_env_def unclamped_extract parsed_verdict_def dict_get_def)
qed

section \<open>The claims\<close>

text \<open>
  Claim C1. For every claim text and identifier, \<^verbatim>\<open>verify_claim\<close> returns a verdict among
  \<^verbatim>\<open>TRUE\<close>, \<^verbatim>\<open>FALSE\<close>, \<^verbatim>\<open>MISLEADING\<close>, \<^verbatim>\<open>UNVERIFIED\<close> and a confidence in [0,100], also
  on the primary path where both are read from the JSON reply.

  The primary path of \<^verbatim>\<open>_determine_verdict\<close> passes on whatever the reply carries:
  \<^verbatim>\<open>result.get('verdict', 'UNVERIFIED')\<close> is not compared with the four values and
  \<^verbatim>\<open>float(result.get('confidence', 50))\<close> is not clamped, although \<^verbatim>\<open>models.py\<close> documents
  the field \<^verbatim>\<open>verdict\<close> as one of the four values and \<^verbatim>\<open>confidence\<close> as \<^verbatim>\<open>0-100\<close>. On
  the reply \<^verbatim>\<open>{"verdict": "MAYBE", "confidence": 150}\<close> the result has verdict \<^verbatim>\<open>MAYBE\<close> and
  confidence 150.
\<close>

theorem unvalidated_verdict_and_confidence:
  "verify_claim unclamped_env ''the sky is blue'' ''c-1'' =
     [(''claim_id'', JStr ''c-1''),
      (''verdict'', JStr ''MAYBE''),
      (''confidence'', JFloat 150),
      (''explanation'', JStr ''Unable to determine verdict''),
      (''supporting_sources'', JList []),
      (''contradicting_sources'', JList [])]
   \<and> JStr ''MAYBE'' \<notin> {JStr ''TRUE'', JStr ''FALSE'', JStr ''MISLEADING'', JStr ''UNVERIFIED''}
   \<and> \<not> (150 :: real) \<le> 100"
  by (simp add: verify_claim_def verify_claim_body_def unclamped_aggregate unclamped_verdict)

text \<open>
  Claim C2. When the reply of the verdict synthesizer's reasoning capability is empty
  (\<^verbatim>\<open>None\<close> or the empty string) or does not parse as JSON, the verdict is the count rule:
  more contradicting than supporting items give \<^verbatim>\<open>FALSE\<close> with confidence 60, more
  supporting than contradicting give \<^verbatim>\<open>TRUE\<close> with confidence 60, and a tie gives
  \<^verbatim>\<open>UNVERIFIED\<close> with confidence 30, each with its fixed explanation.
\<close>

theorem unparseable_verdict_uses_count_rule:
  assumes "verdict_reply env claim supporting contradicting = Returns None
         \<or> verdict_reply env claim supporting contradicting = Returns (Some [])
         \<or> (\<exists>response e. verdict_reply env claim supporting contradicting = Returns (Some response)
                \<and> json_loads env (extract_json_text response) = Inl e
                \<and> kind e = JSONDecodeError)"
  shows "determine_verdict env claim supporting contradicting =
           (if length contradicting > length supporting
            then (JStr ''FALSE'', 60, JStr ''Multiple sources contradict this claim.'')
            else if length supporting > length contradicting
            then (JStr ''TRUE'', 60, JStr ''Multiple sources support this claim.'')
            else (JStr ''UNVERIFIED'', 30, JStr ''Insufficient evidence to verify this claim.''))"
  using determine_verdict_unparseable [OF assms] by (simp add: fallback_verdict_def)

theorem unparseable_verdict_uses_count_rule_witness:
  "verdict_reply sample_env ''the sky is blue'' [] [sample_scored ! 2, sample_scored ! 2]
     = Returns (Some ''The claim appears to be true.'')
   \<and> json_loads sample_env (extract_json_text ''The claim appears to be true.'') = Inl decode_error
   \<and> kind decode_error = JSONDecodeError
   \<and> determine_verdict sample_env ''the sky is blue'' [] [sample_scored ! 2, sample_scored ! 2] =
       (JStr ''FALSE'', 60, JStr ''Multiple sources contradict this claim.'')"
proof -
  have r: "verdict_reply sample_env ''the sky is blue'' [] [sample_scored ! 2, sample_scored ! 2]
             = Returns (Some ''The claim appears to be true.'')"
    by (simp add: sample_env_def)
  have k: "kind decode_error = JSONDecodeError" by (simp add: decode_error_def)
  have "determine_verdict sample_env ''the sky is blue'' [] [sample_scored ! 2, sample_scored ! 2] =
          (if length [sample_scored ! 2, sample_scored ! 2] > length ([] :: json list)
            then (JStr ''FALSE'', 60, JStr ''Multiple sources contradict this claim.'')
            else if length ([] :: json list) > length [sample_scored ! 2, sample_scored ! 2]
            then (JStr ''TRUE'', 60, JStr ''Multiple sources support this claim.'')
            else (JStr ''UNVERIFIED'', 30, JStr ''Insufficient evidence to verify this claim.''))"
    by (rule unparseable_verdict_uses_count_rule) (use r sample_verdict_unparseable k in blast)
  then show ?thesis using r sample_verdict_unparseable k by simp
qed

text \<open>
  Claim C3. Once every evidence item has been scored, an item is in the supporting
  partition exactly when it is one of the scored items, its stance is \<^verbatim>\<open>supports\<close> and its
  similarity score is above 0.5; likewise for the contradicting partition and the stance
  \<^verbatim>\<open>contradicts\<close>. An item whose stance is \<^verbatim>\<open>neutral\<close>, or whose score is 0.5 or less, is
  in neither. Categorizing scored items never raises.
\<close>

theorem partition_membership:
  assumes "scored_sources env claim = Inr all_sources"
  shows "\<exists>supporting contradicting.
           aggregate env claim = Inr (supporting, contradicting)
           \<and> (\<forall>s. s \<in> set supporting \<longleftrightarrow>
                  s \<in> set all_sources
                  \<and> py_get s ''stance'' JNull = Inr (JStr ''supports'')
                  \<and> (\<exists>x. py_get s ''similarity_score'' (JInt 0) = Inr (JFloat x) \<and> x > 0.5))
           \<and> (\<forall>s. s \<in> set contradicting \<longleftrightarrow>
                  s \<in> set all_sources
                  \<and> py_get s ''stance'' JNull = Inr (JStr ''contradicts'')
                  \<and> (\<exists>x. py_get s ''similarity_score'' (JInt 0) = Inr (JFloat x) \<and> x > 0.5))
           \<and> (\<forall>s. py_get s ''stance'' JNull = Inr (JStr ''neutral'')
                    \<or> (\<exists>x. py_get s ''similarity_score'' (JInt 0) = Inr (JFloat x) \<and> x \<le> 0.5)
                  \<longrightarrow> s \<notin> set supporting \<and> s \<notin> set contradicting)"
proof -
  let ?sup = "filter (\<lambda>s. in_partition ''supports'' s = Inr True) all_sources"
  let ?con = "filter (\<lambda>s. in_partition ''contradicts'' s = Inr True) all_sources"
  have mem: "s \<in> set (filter (\<lambda>s. in_partition label s = Inr True) all_sources) \<longleftrightarrow>
               s \<in> set all_sources
               \<and> py_get s ''stance'' JNull = Inr (JStr label)
               \<and> (\<exists>x. py_get s ''similarity_score'' (JInt 0) = Inr (JFloat x) \<and> x > 0.5)"
    for s label
  proof (cases "s \<in> set all_sources")
    case True
    from scored_sources_shape [OF assms True] obtain kv r where
      "s = JDict kv" "map_of kv ''similarity_score'' = Some (JFloat r)" by blast
    from in_partition_True_iff [OF this] True show ?thesis by simp
  next
    case False
    then show ?thesis by simp
  qed
  have agg: "aggregate env claim = Inr (?sup, ?con)"
    by (rule aggregate_scored [OF assms])
  have neither: "s \<notin> set ?sup \<and> s \<notin> set ?con"
    if "py_get s ''stance'' JNull = Inr (JStr ''neutral'')
        \<or> (\<exists>x. py_get s ''similarity_score'' (JInt 0) = Inr (JFloat x) \<and> x \<le> 0.5)" for s
    using that unfolding mem by auto
  show ?thesis
    using agg mem neither by blast
qed

theorem partition_membership_witness:
  "scored_sources sample_env ''the sky is blue'' = Inr sample_scored
   \<and> aggregate sample_env ''the sky is blue'' =
        Inr ([sample_scored ! 0, sample_scored ! 3, sample_scored ! 6, sample_scored ! 7],
             [sample_scored ! 2])
   \<and> sample_scored ! 0 \<in> set [sample_scored ! 0, sample_scored ! 3, sample_scored ! 6, sample_scored ! 7]
   \<and> sample_scored ! 2 \<in> set [sample_scored ! 2]
   \<and> sample_scored ! 1 \<notin> set [sample_scored ! 0, sample_scored ! 3, sample_scored ! 6, sample_scored ! 7]
   \<and> sample_scored ! 1 \<notin> set [sample_scored ! 2]
   \<and> sample_scored ! 4 \<notin> set [sample_scored ! 0, sample_scored ! 3, sample_scored ! 6, sample_scored ! 7]
   \<and> sample_scored ! 4 \<notin> set [sample_scored ! 2]"
proof -
  from partition_membership [OF sample_scored_sources] obtain supporting contradicting where
    agg: "aggregate sample_env ''the sky is blue'' = Inr (supporting, contradicting)" and
    sup: "\<And>s. s \<in> set supporting \<longleftrightarrow>
            s \<in> set sample_scored
            \<and> py_get s ''stance'' JNull = Inr (JStr ''supports'')
            \<and> (\<exists>x. py_get s ''similarity_score'' (JInt 0) = Inr (JFloat x) \<and> x > 0.5)" and
    con: "\<And>s. s \<in> set contradicting \<longleftrightarrow>
            s \<in> set sample_scored
            \<and> py_get s ''stance'' JNull = Inr (JStr ''contradicts'')
            \<and> (\<exists>x. py_get s ''similarity_score'' (JInt 0) = Inr (JFloat x) \<and> x > 0.5)" and
    neither: "\<And>s. py_get s ''stance'' JNull = Inr (JStr ''neutral'')
                \<or> (\<exists>x. py_get s ''similarity_score'' (JInt 0) = Inr (JFloat x) \<and> x \<le> 0.5)
              \<Longrightarrow> s \<notin> set supporting \<and> s \<notin> set contradicting"
    by blast
  from agg sample_aggregate have eq:
    "supporting = [sample_scored ! 0, sample_scored ! 3, sample_scored ! 6, sample_scored ! 7]"
    "contradicting = [sample_scored ! 2]"
    by simp_all
  have "py_get (sample_scored ! 1) ''similarity_score'' (JInt 0) = Inr (JFloat 0.5)"
    by (simp add: sample_scored_def dict_get_def)
  moreover have "(0.5 :: real) \<le> 0.5" by simp
  ultimately have half: "\<exists>x. py_get (sample_scored ! 1) ''similarity_score'' (JInt 0) = Inr (JFloat x) \<and> x \<le> 0.5"
    by (intro exI conjI)
  have neutral: "py_get (sample_scored ! 4) ''stance'' JNull = Inr (JStr ''neutral'')"
    by (simp add: sample_scored_def dict_get_def)
  have "py_get (sample_scored ! 0) ''similarity_score'' (JInt 0) = Inr (JFloat 0.9)"
    by (simp add: sample_scored_def dict_get_def)
  moreover have "(0.9 :: real) > 0.5" by simp
  ultimately have "\<exists>x. py_get (sample_scored ! 0) ''similarity_score'' (JInt 0) = Inr (JFloat x) \<and> x > 0.5"
    by (intro exI conjI)
  moreover have "sample_scored ! 0 \<in> set sample_scored
        \<and> py_get (sample_scored ! 0) ''stance'' JNull = Inr (JStr ''supports'')"
    by (simp add: sample_scored_def dict_get_def)
  ultimately have in0: "sample_scored ! 0 \<in> set supporting" by (simp only: sup)
  have "py_get (sample_scored ! 2) ''similarity_score'' (JInt 0) = Inr (JFloat 0.8)"
    by (simp add: sample_scored_def dict_get_def)
  moreover have "(0.8 :: real) > 0.5" by simp
  ultimately have "\<exists>x. py_get (sample_scored ! 2) ''similarity_score'' (JInt 0) = Inr (JFloat x) \<and> x > 0.5"
    by (intro exI conjI)
  moreover have "sample_scored ! 2 \<in> set sample_scored
        \<and> py_get (sample_scored ! 2) ''stance'' JNull = Inr (JStr ''contradicts'')"
    by (simp add: sample_scored_def dict_get_def)
  ultimately have in2: "sample_scored ! 2 \<in> set contradicting" by (simp only: con)
  from neither [of "sample_scored ! 1"] half
  have out1: "sample_scored ! 1 \<notin> set supporting \<and> sample_scored ! 1 \<notin> set contradicting"
    by blast
  from neither [of "sample_scored ! 4"] neutral
  have out4: "sample_scored ! 4 \<notin> set supporting \<and> sample_scored ! 4 \<notin> set contradicting"
    by blast
  show ?thesis
    using sample_scored_sources sample_aggregate in0 in2 out1 out4 unfolding eq by blast
qed

text \<open>
  Claim C4. When the similarity scorer raises on two texts, the similarity is the number
  of distinct whitespace-delimited tokens that the lower-cased texts share, divided by
  the larger of the two token counts and 1, times 0.5: the code's score is the
  specification's \<open>spec_overlap_score\<close>. For \<^verbatim>\<open>the sky is blue\<close> and \<^verbatim>\<open>the sky is grey\<close> it
  is 0.375.
\<close>

theorem similarity_fallback_formula:
  assumes "embedding_similarity env i text1 (JStr text2) = Raises e"
  shows "calculate_semantic_similarity env i text1 (JStr text2) =
           Inr (spec_overlap_score text1 text2)
       \<and> (text1 = ''the sky is blue'' \<and> text2 = ''the sky is grey'' \<longrightarrow>
            calculate_semantic_similarity env i text1 (JStr text2) = Inr 0.375)"
  using calculate_similarity_fallback [OF assms] overlap_sky
  by (auto simp: fallback_similarity_spec)

text \<open>
  The score on texts that differ in case, in the kind and number of whitespace
  characters between tokens, in repeated tokens, and on empty texts; each value is what
  the two lines of the handler compute on the same texts.
\<close>

theorem similarity_fallback_formula_witness:
  "embedding_similarity offline_env 0 ''the sky is blue'' (JStr ''the sky is grey'') = Raises unreachable
   \<and> calculate_semantic_similarity offline_env 0 ''the sky is blue'' (JStr ''the sky is grey'')
       = Inr 0.375
   \<and> calculate_semantic_similarity offline_env 0
         (''The SKY  is'' @ [CHR 0x09] @ ''blue'' @ [CHR 0x0A]) (JStr ''the sky is Grey'')
       = Inr 0.375
   \<and> calculate_semantic_similarity offline_env 0
         (''CAF'' @ [CHR 0xC9]) (JStr (''caf'' @ [CHR 0xE9]))
       = Inr 0.5
   \<and> calculate_semantic_similarity offline_env 0
         [CHR ''a'', CHR 0xA0, CHR ''b''] (JStr ''a b'')
       = Inr 0.5
   \<and> calculate_semantic_similarity offline_env 0 [] (JStr []) = Inr 0
   \<and> calculate_semantic_similarity offline_env 0 ''a a a a'' (JStr ''A'') = Inr 0.125
   \<and> calculate_semantic_similarity offline_env 0
         ([CHR ''x'', CHR 0x85, CHR ''y'', CHR '' '', CHR 0x1F] @ ''z w'') (JStr ''Z y'')
       = Inr 0.25"
proof -
  have r: "embedding_similarity offline_env i t1 t2 = Raises unreachable" for i t1 t2
    by (simp add: offline_env_def)
  note score = similarity_fallback_formula [OF r, THEN conjunct1]
  have "calculate_semantic_similarity offline_env 0 ''the sky is blue'' (JStr ''the sky is grey'')
          = Inr 0.375"
    by (simp only: score overlap_sky)
  moreover have "calculate_semantic_similarity offline_env 0
         (''The SKY  is'' @ [CHR 0x09] @ ''blue'' @ [CHR 0x0A]) (JStr ''the sky is Grey'')
       = Inr 0.375"
    by (simp only: score overlap_mixed_case)
  moreover have "calculate_semantic_similarity offline_env 0
         (''CAF'' @ [CHR 0xC9]) (JStr (''caf'' @ [CHR 0xE9])) = Inr 0.5"
    by (simp only: score overlap_latin1_capital)
  moreover have "calculate_semantic_similarity offline_env 0
         [CHR ''a'', CHR 0xA0, CHR ''b''] (JStr ''a b'') = Inr 0.5"
    by (simp only: score overlap_no_break_space)
  moreover have "calculate_semantic_similarity offline_env 0 [] (JStr []) = Inr 0"
    by (simp only: score overlap_empty)
  moreover have "calculate_semantic_similarity offline_env 0 ''a a a a'' (JStr ''A'') = Inr 0.125"
    by (simp only: score overlap_repeated)
  moreover have "calculate_semantic_similarity offline_env 0
         ([CHR ''x'', CHR 0x85, CHR ''y'', CHR '' '', CHR 0x1F] @ ''z w'') (JStr ''Z y'')
       = Inr 0.25"
    by (simp only: score overlap_separators)
  ultimately show ?thesis using r by blast
qed

text \<open>
  Claim C5. \<^verbatim>\<open>generate_search_queries\<close> returns a sequence of at most three queries (for
  every claim text, empty or not), and when the reasoning capability raises, returns
  nothing, or returns text that does not parse as JSON, the result is the one-element list
  holding the claim text.
\<close>

theorem query_planner_bound_and_fallback:
  "(\<exists>queries. py_iter (generate_search_queries env claim) = Inr queries \<and> length queries \<le> 3)
   \<and> ((\<exists>e. query_reply env claim = Raises e)
        \<or> query_reply env claim = Returns None
        \<or> query_reply env claim = Returns (Some [])
        \<or> (\<exists>response e. query_reply env claim = Returns (Some response)
               \<and> json_loads env (extract_json_text response) = Inl e
               \<and> kind e = JSONDecodeError)
       \<longrightarrow> generate_search_queries env claim = JList [JStr claim])"
  using generate_search_queries_iter generate_search_queries_fallback by blast

theorem query_planner_bound_and_fallback_witness:
  "query_reply sample_env ''Vaccine X causes disease Y'' = Returns (Some ''Sorry, I cannot help with that.'')
   \<and> json_loads sample_env (extract_json_text ''Sorry, I cannot help with that.'') = Inl decode_error
   \<and> kind decode_error = JSONDecodeError
   \<and> generate_search_queries sample_env ''Vaccine X causes disease Y''
       = JList [JStr ''Vaccine X causes disease Y'']"
proof -
  have r: "query_reply sample_env ''Vaccine X causes disease Y''
             = Returns (Some ''Sorry, I cannot help with that.'')"
    by (simp add: sample_env_def)
  have "extract_json_text ''Sorry, I cannot help with that.'' \<noteq> sample_evidence_text"
    by code_simp
  then have j: "json_loads sample_env (extract_json_text ''Sorry, I cannot help with that.'')
                  = Inl decode_error"
    by (simp add: sample_env_def)
  have k: "kind decode_error = JSONDecodeError" by (simp add: decode_error_def)
  show ?thesis
    using r j k query_planner_bound_and_fallback [of sample_env "''Vaccine X causes disease Y''"]
    by blast
qed

text \<open>
  Claim C6. \<^verbatim>\<open>verify_claim\<close> always returns a mapping with exactly the keys
  \<^verbatim>\<open>claim_id\<close>, \<^verbatim>\<open>verdict\<close>, \<^verbatim>\<open>confidence\<close>, \<^verbatim>\<open>explanation\<close>, \<^verbatim>\<open>supporting_sources\<close>,
  \<^verbatim>\<open>contradicting_sources\<close>, whatever the external services do; and when an exception
  \<open>e\<close> escapes the body, the mapping has verdict \<^verbatim>\<open>UNVERIFIED\<close>, confidence 0, the explanation
  \<^verbatim>\<open>Verification failed due to technical error: \<close> followed by the text of \<open>e\<close>, and two
  empty lists. (The handler is \<^verbatim>\<open>except Exception\<close>; cancellation and interpreter exit are
  outside the model.)
\<close>

theorem verify_claim_always_returns:
  "map fst (verify_claim env claim claim_id) =
     [''claim_id'', ''verdict'', ''confidence'', ''explanation'',
      ''supporting_sources'', ''contradicting_sources'']
   \<and> (verify_claim_body env claim claim_id = Inl e \<longrightarrow>
        verify_claim env claim claim_id =
          [(''claim_id'', JStr claim_id),
           (''verdict'', JStr ''UNVERIFIED''),
           (''confidence'', JFloat 0),
           (''explanation'', JStr (''Verification failed due to technical error: '' @ msg e)),
           (''supporting_sources'', JList []),
           (''contradicting_sources'', JList [])])"
  using verify_claim_keys by (simp add: verify_claim_def)

theorem verify_claim_always_returns_witness:
  "verify_claim_body malformed_env ''the sky is blue'' ''c-1'' = Inl (no_attribute (JInt 5) ''lower'')
   \<and> map fst (verify_claim malformed_env ''the sky is blue'' ''c-1'') =
       [''claim_id'', ''verdict'', ''confidence'', ''explanation'',
        ''supporting_sources'', ''contradicting_sources'']
   \<and> verify_claim malformed_env ''the sky is blue'' ''c-1'' =
       [(''claim_id'', JStr ''c-1''),
        (''verdict'', JStr ''UNVERIFIED''),
        (''confidence'', JFloat 0),
        (''explanation'', JStr (''Verification failed due to technical error: ''
                                 @ quote ''int'' @ '' object has no attribute '' @ quote ''lower'')),
        (''supporting_sources'', JList []),
        (''contradicting_sources'', JList [])]"
  using verify_claim_always_returns
          [of malformed_env "''the sky is blue''" "''c-1''" "no_attribute (JInt 5) ''lower''"]
        malformed_body [of "''the sky is blue''" "''c-1''"]
  by (simp add: no_attribute_def)

text \<open>
  Claim C7. If the evidence source raises on every query, every search returns the empty
  list, both partitions are empty, the fallback rule gives \<^verbatim>\<open>UNVERIFIED\<close> with confidence
  30, and that is the result of \<^verbatim>\<open>verify_claim\<close> whenever the verdict synthesizer's reply
  is empty or unparseable.
\<close>

theorem evidence_source_always_raising:
  assumes "\<forall>i query. \<exists>e. evidence_reply env i query = Raises e"
  shows "(\<forall>i query. search_trusted_sources env i query = JList [])
       \<and> aggregate env claim = Inr ([], [])
       \<and> fallback_verdict [] [] =
           (JStr ''UNVERIFIED'', 30, JStr ''Insufficient evidence to verify this claim.'')
       \<and> (verdict_reply env claim [] [] = Returns None
            \<or> verdict_reply env claim [] [] = Returns (Some [])
            \<or> (\<exists>response e. verdict_reply env claim [] [] = Returns (Some response)
                   \<and> json_loads env (extract_json_text response) = Inl e
                   \<and> kind e = JSONDecodeError)
          \<longrightarrow> verify_claim env claim claim_id =
                [(''claim_id'', JStr claim_id),
                 (''verdict'', JStr ''UNVERIFIED''),
                 (''confidence'', JFloat 30),
                 (''explanation'', JStr ''Insufficient evidence to verify this claim.''),
                 (''supporting_sources'', JList []),
                 (''contradicting_sources'', JList [])])"
proof -
  have empty: "search_trusted_sources env i query = JList []" for i query
    using assms search_raises_empty by blast
  obtain queries where q: "py_iter (generate_search_queries env claim) = Inr queries"
    using generate_search_queries_iter by blast
  have "search_all env 0 queries = Inr []"
    by (rule search_all_empty) (rule empty)
  then have "scored_sources env claim = Inr []"
    by (simp add: scored_sources_def q)
  then have agg: "aggregate env claim = Inr ([], [])"
    by (simp add: aggregate_def categorize_def)
  have fb: "fallback_verdict [] [] =
           (JStr ''UNVERIFIED'', 30, JStr ''Insufficient evidence to verify this claim.'')"
    by (simp add: fallback_verdict_def)
  have "verify_claim env claim claim_id =
                [(''claim_id'', JStr claim_id),
                 (''verdict'', JStr ''UNVERIFIED''),
                 (''confidence'', JFloat 30),
                 (''explanation'', JStr ''Insufficient evidence to verify this claim.''),
                 (''supporting_sources'', JList []),
                 (''contradicting_sources'', JList [])]"
    if "verdict_reply env claim [] [] = Returns None
            \<or> verdict_reply env claim [] [] = Returns (Some [])
            \<or> (\<exists>response e. verdict_reply env claim [] [] = Returns (Some response)
                   \<and> json_loads env (extract_json_text response) = Inl e
                   \<and> kind e = JSONDecodeError)"
    using determine_verdict_unparseable [OF that] agg fb
    by (simp add: verify_claim_def verify_claim_body_def)
  then show ?thesis using empty agg fb by blast
qed

theorem evidence_source_always_raising_witness:
  "(\<forall>i query. \<exists>e. evidence_reply evidence_down_env i query = Raises e)
   \<and> verdict_reply evidence_down_env ''the sky is blue'' [] [] = Returns (Some ''I am not sure.'')
   \<and> json_loads evidence_down_env (extract_json_text ''I am not sure.'') = Inl decode_error
   \<and> kind decode_error = JSONDecodeError
   \<and> aggregate evidence_down_env ''the sky is blue'' = Inr ([], [])
   \<and> verify_claim evidence_down_env ''the sky is blue'' ''c-1'' =
       [(''claim_id'', JStr ''c-1''),
        (''verdict'', JStr ''UNVERIFIED''),
        (''confidence'', JFloat 30),
        (''explanation'', JStr ''Insufficient evidence to verify this claim.''),
        (''supporting_sources'', JList []),
        (''contradicting_sources'', JList [])]"
proof -
  have h: "\<forall>i query. \<exists>e. evidence_reply evidence_down_env i query = Raises e"
    by (simp add: evidence_down_env_def offline_env_def)
  have r: "verdict_reply evidence_down_env ''the sky is blue'' [] [] = Returns (Some ''I am not sure.'')"
    by (simp add: evidence_down_env_def)
  have j: "json_loads evidence_down_env (extract_json_text ''I am not sure.'') = Inl decode_error"
    by (simp add: evidence_down_env_def offline_env_def)
  have k: "kind decode_error = JSONDecodeError" by (simp add: decode_error_def)
  show ?thesis
    using h r j k evidence_source_always_raising [OF h, of "''the sky is blue''" "''c-1''"]
    by blast
qed

text \<open>
  Claim C8. If an exception \<open>e\<close> is raised during verdict synthesis (the body of
  \<^verbatim>\<open>_determine_verdict\<close> raises, for instance because the reasoning capability does), the
  synthesizer returns \<^verbatim>\<open>UNVERIFIED\<close> with confidence 0 and the explanation
  \<^verbatim>\<open>Error during verification: \<close> followed by the text of \<open>e\<close>.
\<close>

theorem synthesis_exception_gives_unverified:
  "(determine_verdict_body env claim supporting contradicting = Inl e \<longrightarrow>
      determine_verdict env claim supporting contradicting =
        (JStr ''UNVERIFIED'', 0, JStr (''Error during verification: '' @ msg e)))
   \<and> (verdict_reply env claim supporting contradicting = Raises e \<longrightarrow>
      determine_verdict env claim supporting contradicting =
        (JStr ''UNVERIFIED'', 0, JStr (''Error during verification: '' @ msg e)))"
  by (simp add: determine_verdict_def determine_verdict_body_def)

theorem synthesis_exception_gives_unverified_witness:
  "determine_verdict_body offline_env ''the sky is blue'' [] [] = Inl unreachable
   \<and> verdict_reply offline_env ''the sky is blue'' [] [] = Raises unreachable
   \<and> determine_verdict offline_env ''the sky is blue'' [] [] =
       (JStr ''UNVERIFIED'', 0, JStr ''Error during verification: Connection error.'')"
proof -
  have h: "verdict_reply offline_env ''the sky is blue'' [] [] = Raises unreachable"
    by (simp add: offline_env_def)
  then have b: "determine_verdict_body offline_env ''the sky is blue'' [] [] = Inl unreachable"
    by (simp add: determine_verdict_body_def)
  show ?thesis
    using h b synthesis_exception_gives_unverified
                [of offline_env "''the sky is blue''" "[]" "[]" unreachable]
    by (simp add: unreachable_def)
qed

text \<open>
  Claim C9. In the result of \<^verbatim>\<open>verify_claim\<close>, \<^verbatim>\<open>supporting_sources\<close> and
  \<^verbatim>\<open>contradicting_sources\<close> are lists of at most three items; when the evidence was scored,
  they are the first three items of the respective partition, in the order in which the
  evidence arrived.
\<close>

theorem at_most_three_sources:
  "\<exists>supporting contradicting.
      map_of (verify_claim env claim claim_id) ''supporting_sources'' = Some (JList supporting)
    \<and> map_of (verify_claim env claim claim_id) ''contradicting_sources'' = Some (JList contradicting)
    \<and> length supporting \<le> 3 \<and> length contradicting \<le> 3
    \<and> (\<forall>all_sources. scored_sources env claim = Inr all_sources \<longrightarrow>
          supporting = take 3 (filter (\<lambda>s. in_partition ''supports'' s = Inr True) all_sources)
        \<and> contradicting = take 3 (filter (\<lambda>s. in_partition ''contradicts'' s = Inr True) all_sources)
        \<and> subseq supporting all_sources \<and> subseq contradicting all_sources)"
proof (cases "aggregate env claim")
  case (Inl e)
  have no: "scored_sources env claim \<noteq> Inr all_sources" for all_sources
    using aggregate_scored [of env claim all_sources] Inl by auto
  have "verify_claim env claim claim_id =
          [(''claim_id'', JStr claim_id), (''verdict'', JStr ''UNVERIFIED''),
           (''confidence'', JFloat 0),
           (''explanation'', JStr (''Verification failed due to technical error: '' @ msg e)),
           (''supporting_sources'', JList []), (''contradicting_sources'', JList [])]"
    using Inl by (simp add: verify_claim_def verify_claim_body_def)
  then show ?thesis using no by simp
next
  case (Inr p)
  obtain S C where p: "p = (S, C)" by (cases p)
  obtain v c x where dv: "determine_verdict env claim S C = (v, c, x)"
    by (cases "determine_verdict env claim S C")
  have vc: "verify_claim env claim claim_id =
          [(''claim_id'', JStr claim_id), (''verdict'', v), (''confidence'', JFloat c),
           (''explanation'', x),
           (''supporting_sources'', JList (take 3 S)),
           (''contradicting_sources'', JList (take 3 C))]"
    using Inr p dv by (simp add: verify_claim_def verify_claim_body_def)
  have eq: "S = filter (\<lambda>s. in_partition ''supports'' s = Inr True) all_sources
          \<and> C = filter (\<lambda>s. in_partition ''contradicts'' s = Inr True) all_sources"
    if "scored_sources env claim = Inr all_sources" for all_sources
    using aggregate_scored [OF that] Inr p by simp
  show ?thesis
  proof (intro exI conjI allI impI)
    show "map_of (verify_claim env claim claim_id) ''supporting_sources'' = Some (JList (take 3 S))"
      by (simp add: vc)
    show "map_of (verify_claim env claim claim_id) ''contradicting_sources'' = Some (JList (take 3 C))"
      by (simp add: vc)
    show "length (take 3 S) \<le> 3" by simp
    show "length (take 3 C) \<le> 3" by simp
  next
    fix all_sources assume a: "scored_sources env claim = Inr all_sources"
    show "take 3 S = take 3 (filter (\<lambda>s. in_partition ''supports'' s = Inr True) all_sources)"
      using eq [OF a] by simp
    show "take 3 C = take 3 (filter (\<lambda>s. in_partition ''contradicts'' s = Inr True) all_sources)"
      using eq [OF a] by simp
    show "subseq (take 3 S) all_sources"
      using eq [OF a] take_filter_subseq [of 3 _ all_sources] by simp
    show "subseq (take 3 C) all_sources"
      using eq [OF a] take_filter_subseq [of 3 _ all_sources] by simp
  qed
qed

theorem at_most_three_sources_witness:
  "scored_sources sample_env ''the sky is blue'' = Inr sample_scored
   \<and> map_of (verify_claim sample_env ''the sky is blue'' ''c-1'') ''supporting_sources''
        = Some (JList [sample_scored ! 0, sample_scored ! 3, sample_scored ! 6])
   \<and> map_of (verify_claim sample_env ''the sky is blue'' ''c-1'') ''contradicting_sources''
        = Some (JList [sample_scored ! 2])
   \<and> length [sample_scored ! 0, sample_scored ! 3, sample_scored ! 6] \<le> 3
   \<and> subseq [sample_scored ! 0, sample_scored ! 3, sample_scored ! 6] sample_scored"
proof -
  from at_most_three_sources [of sample_env "''the sky is blue''" "''c-1''"]
  obtain supporting contradicting where
    s: "map_of (verify_claim sample_env ''the sky is blue'' ''c-1'') ''supporting_sources''
          = Some (JList supporting)" and
    c: "map_of (verify_claim sample_env ''the sky is blue'' ''c-1'') ''contradicting_sources''
          = Some (JList contradicting)" and
    len: "length supporting \<le> 3" and
    rest: "\<And>all_sources. scored_sources sample_env ''the sky is blue'' = Inr all_sources \<Longrightarrow>
            supporting = take 3 (filter (\<lambda>s. in_partition ''supports'' s = Inr True) all_sources)
          \<and> contradicting = take 3 (filter (\<lambda>s. in_partition ''contradicts'' s = Inr True) all_sources)
          \<and> subseq supporting all_sources \<and> subseq contradicting all_sources"
    by blast
  from aggregate_scored [OF sample_scored_sources] sample_aggregate
  have f: "filter (\<lambda>s. in_partition ''supports'' s = Inr True) sample_scored
             = [sample_scored ! 0, sample_scored ! 3, sample_scored ! 6, sample_scored ! 7]"
          "filter (\<lambda>s. in_partition ''contradicts'' s = Inr True) sample_scored
             = [sample_scored ! 2]"
    by simp_all
  note r = rest [OF sample_scored_sources, unfolded f]
  from r have eq: "supporting = [sample_scored ! 0, sample_scored ! 3, sample_scored ! 6]"
    "contradicting = [sample_scored ! 2]"
    by simp_all
  from r have sub: "subseq supporting sample_scored" by (elim conjE)
  show ?thesis
    using sample_scored_sources s c len sub unfolding eq by blast
qed

text \<open>
  Claim C10. The lexical-overlap score lies in [0, 0.5] for every pair of texts, since the
  number of distinct shared tokens exceeds neither text's token count; hence an evidence
  item whose similarity came from the fallback is in neither partition.
\<close>

theorem fallback_never_qualifies:
  "0 \<le> fallback_similarity text1 text2 \<and> fallback_similarity text1 text2 \<le> 0.5
   \<and> card (common_words text1 text2) \<le> length (py_split text1)
   \<and> card (common_words text1 text2) \<le> length (py_split text2)
   \<and> (score_all env claim 0 sources = Inr all_sources
        \<and> k < length sources \<and> sources ! k = JDict kv
        \<and> embedding_similarity env k claim (dict_get kv ''relevant_text'' (JStr [])) = Raises e
        \<and> categorize all_sources = Inr (supporting, contradicting)
      \<longrightarrow> all_sources ! k \<notin> set supporting \<and> all_sources ! k \<notin> set contradicting)"
proof -
  have "all_sources ! k \<notin> set supporting \<and> all_sources ! k \<notin> set contradicting"
    if sc: "score_all env claim 0 sources = Inr all_sources"
      and k: "k < length sources" and kv: "sources ! k = JDict kv"
      and emb: "embedding_similarity env k claim (dict_get kv ''relevant_text'' (JStr [])) = Raises e"
      and cat: "categorize all_sources = Inr (supporting, contradicting)"
  proof -
    from score_all_nth [OF sc] k kv
    have "score_source env claim k (JDict kv) = Inr (all_sources ! k)" by auto
    from score_source_fallback [OF this emb]
    have no: "in_partition label (all_sources ! k) \<noteq> Inr True" for label by simp
    from cat have "supporting = filter (\<lambda>s. in_partition ''supports'' s = Inr True) all_sources"
      and "contradicting = filter (\<lambda>s. in_partition ''contradicts'' s = Inr True) all_sources"
      by (auto simp: categorize_def split: sum.splits dest: filter_exn_Inr)
    then show ?thesis using no by simp
  qed
  then show ?thesis
    using fallback_similarity_range [of text1 text2] card_common_words_le2 [of text1 text2]
    by blast
qed

theorem fallback_never_qualifies_witness:
  "score_all sample_env ''the sky is blue'' 0 sample_found = Inr sample_scored
   \<and> 5 < length sample_found
   \<and> sample_found ! 5 = JDict [(''stance'', JStr ''supports''),
                               (''relevant_text'', JStr ''the sky is grey''),
                               (''credibility_score'', JInt 70)]
   \<and> embedding_similarity sample_env 5 ''the sky is blue'' (JStr ''the sky is grey'') = Raises unreachable
   \<and> categorize sample_scored =
        Inr ([sample_scored ! 0, sample_scored ! 3, sample_scored ! 6, sample_scored ! 7],
             [sample_scored ! 2])
   \<and> sample_scored ! 5 \<notin> set [sample_scored ! 0, sample_scored ! 3, sample_scored ! 6, sample_scored ! 7]
   \<and> sample_scored ! 5 \<notin> set [sample_scored ! 2]
   \<and> fallback_similarity ''the sky is blue'' ''the sky is grey'' \<le> 0.5"
proof -
  let ?kv = "[(''stance'', JStr ''supports''), (''relevant_text'', JStr ''the sky is grey''),
              (''credibility_score'', JInt 70)]"
  have k: "5 < length sample_found" by (simp add: sample_found_def)
  have n: "sample_found ! 5 = JDict ?kv" by (simp add: sample_found_def)
  have t: "dict_get ?kv ''relevant_text'' (JStr []) = JStr ''the sky is grey''"
    by (simp add: dict_get_def)
  have e: "embedding_similarity sample_env 5 ''the sky is blue'' (JStr ''the sky is grey'')
             = Raises unreachable"
    by (simp add: sample_env_def sample_scores_def)
  from fallback_never_qualifies
         [of "''the sky is blue''" "''the sky is grey''" sample_env "''the sky is blue''"
             sample_found sample_scored 5 ?kv unreachable
             "[sample_scored ! 0, sample_scored ! 3, sample_scored ! 6, sample_scored ! 7]"
             "[sample_scored ! 2]"]
  show ?thesis
    using sample_score_all k n e sample_categorize unfolding t by blast
qed

end
